theory Spec2Isabelle
  imports Main "HOL-Library.Monad_Syntax"
begin

section \<open>Strings as byte lists\<close>

text \<open>
  A Go \<^verbatim>\<open>string\<close> is a sequence of bytes and \<^verbatim>\<open>str[i]\<close> reads one byte, so a
  string is modelled as a \<^typ>\<open>char list\<close>. The characters that cannot be written
  inside a literal are given by their code.
\<close>

definition bslash :: char where
  "bslash = CHR 0x5C"

definition dquote :: char where
  "dquote = CHR 0x22"

section \<open>DN encoding for responses (schema package, \<^verbatim>\<open>encodeDN\<close>)\<close>

text \<open>
  One iteration of the loop of \<^verbatim>\<open>encodeDN\<close>: the \<^verbatim>\<open>switch\<close> on the byte at index
  \<open>i\<close>, with the cases in the order of the source. \<open>last\<close> is \<^verbatim>\<open>len(str) - 1\<close>,
  a Go \<^verbatim>\<open>int\<close>, which is \<open>-1\<close> for the empty string.
\<close>

definition encodeDN_char :: "int \<Rightarrow> nat \<Rightarrow> char \<Rightarrow> string" where
  "encodeDN_char lst i c =
     (if i = 0 \<and> c = CHR '' '' then [bslash, CHR ''2'', CHR ''0'']
      else if int i = lst \<and> c = CHR '' '' then [bslash, CHR ''2'', CHR ''0'']
      else if c = dquote then [bslash, CHR ''2'', CHR ''2'']
      else if i = 0 \<and> c = CHR ''#'' then [bslash, CHR ''2'', CHR ''3'']
      else if c = CHR ''+'' then [bslash, CHR ''2'', CHR ''B'']
      else if c = CHR '','' then [bslash, CHR ''2'', CHR ''C'']
      else if c = CHR '';'' then [bslash, CHR ''3'', CHR ''B'']
      else if c = CHR ''<'' then [bslash, CHR ''3'', CHR ''C'']
      else if c = CHR ''='' then [bslash, CHR ''3'', CHR ''D'']
      else if c = CHR ''>'' then [bslash, CHR ''3'', CHR ''E'']
      else if c = bslash then [bslash, CHR ''5'', CHR ''C'']
      else [c])"

text \<open>The loop \<^verbatim>\<open>for i := 0; i < len(str); i++\<close>, appending to the builder.\<close>

fun encodeDN_loop :: "int \<Rightarrow> nat \<Rightarrow> string \<Rightarrow> string" where
  "encodeDN_loop lst i [] = []"
| "encodeDN_loop lst i (c # cs) = encodeDN_char lst i c @ encodeDN_loop lst (Suc i) cs"

definition encodeDN :: "string \<Rightarrow> string" where
  "encodeDN str = encodeDN_loop (int (length str) - 1) 0 str"

subsection \<open>The escaping rule, stated independently of the loop\<close>

definition hex_digit :: "nat \<Rightarrow> char" where
  "hex_digit n = (if n < 10 then char_of (48 + n) else char_of (55 + n))"

text \<open>\<open>\HH\<close>: a backslash and the two upper-case hexadecimal digits of the byte.\<close>

definition hex_escape :: "char \<Rightarrow> string" where
  "hex_escape c = [bslash, hex_digit (of_char c div 16), hex_digit (of_char c mod 16)]"

text \<open>
  The set of positions the specification names: the characters
  \<open>" + , ; < > \\<close> anywhere, a space in first or last position, and \<open>#\<close> in
  first position.
\<close>

definition spec_must_escape :: "string \<Rightarrow> nat \<Rightarrow> bool" where
  "spec_must_escape s i =
     (s ! i \<in> {dquote, CHR ''+'', CHR '','', CHR '';'', CHR ''<'', CHR ''>'', bslash}
      \<or> (s ! i = CHR '' '' \<and> (i = 0 \<or> Suc i = length s))
      \<or> (s ! i = CHR ''#'' \<and> i = 0))"

definition spec_encodeDN :: "string \<Rightarrow> string" where
  "spec_encodeDN s =
     concat (map (\<lambda>i. if spec_must_escape s i then hex_escape (s ! i) else [s ! i])
                 [0..<length s])"

text \<open>The set of positions the code escapes: the same, and \<open>=\<close> anywhere.\<close>

definition must_escape :: "string \<Rightarrow> nat \<Rightarrow> bool" where
  "must_escape s i = (spec_must_escape s i \<or> s ! i = CHR ''='')"

section \<open>Decimal integers (\<^verbatim>\<open>strconv.ParseInt\<close> and \<^verbatim>\<open>strconv.FormatInt\<close>, base 10, 64 bits)\<close>

definition INT64_MAX :: int where
  "INT64_MAX = 9223372036854775807"

definition INT64_MIN :: int where
  "INT64_MIN = - 9223372036854775808"

definition is_digit :: "char \<Rightarrow> bool" where
  "is_digit c = (48 \<le> (of_char c :: nat) \<and> (of_char c :: nat) \<le> 57)"

definition digit_val :: "char \<Rightarrow> nat" where
  "digit_val c = of_char c - 48"

definition digit_char :: "nat \<Rightarrow> char" where
  "digit_char n = char_of (48 + n)"

text \<open>The value of a digit string, most significant digit first.\<close>

fun digits_val :: "nat \<Rightarrow> string \<Rightarrow> nat" where
  "digits_val acc [] = acc"
| "digits_val acc (c # cs) = digits_val (acc * 10 + digit_val c) cs"

text \<open>
  \<^verbatim>\<open>strconv.ParseInt(s, 10, 64)\<close>: an optional sign, then one or more decimal
  digits and nothing else; a value outside the 64-bit signed range is an error.
\<close>

definition ParseInt :: "string \<Rightarrow> int option" where
  "ParseInt s =
     (case s of
        [] \<Rightarrow> None
      | c # cs \<Rightarrow>
          let neg = (c = CHR ''-'');
              ds = (if c = CHR ''+'' \<or> c = CHR ''-'' then cs else s)
          in if ds = [] \<or> \<not> list_all is_digit ds then None
             else
               let v = (if neg then - int (digits_val 0 ds) else int (digits_val 0 ds))
               in if INT64_MIN \<le> v \<and> v \<le> INT64_MAX then Some v else None)"

fun dec :: "nat \<Rightarrow> string" where
  "dec n = (if n < 10 then [digit_char n] else dec (n div 10) @ [digit_char (n mod 10)])"

declare dec.simps [simp del]

text \<open>\<^verbatim>\<open>strconv.FormatInt(i, 10)\<close>.\<close>

definition FormatInt :: "int \<Rightarrow> string" where
  "FormatInt i = (if i < 0 then CHR ''-'' # dec (nat (- i)) else dec (nat i))"

section \<open>Errors\<close>

text \<open>
  The errors of the \<^verbatim>\<open>util\<close> package that the modelled functions return, the
  errors built with \<^verbatim>\<open>errors.New\<close> (\<open>OtherError\<close>, with the message), the driver's
  \<^verbatim>\<open>sql.ErrNoRows\<close>, and a Go run-time panic.
\<close>

datatype error =
    NoSuchAttribute string string
  | NoUserModificationAllowedConstraintViolation string
  | OperationsError
  | InvalidPerSyntax string nat
  | ObjectClassViolation
  | ObjectClassModsProhibited string string
  | InvalidCredentials
  | NoSuchObject
  | AlreadyExists
  | InvalidDNSyntax
  | RetryError string
  | ErrNoRows
  | OtherError string
  | Panic string

section \<open>Distinguished names (schema package)\<close>

record AttributeTypeAndValue =
  TypeOrig :: string
  TypeNorm :: string
  ValueOrig :: string
  ValueOrigEncoded :: string
  ValueNorm :: string

datatype RelativeDN = RelativeDN (Attributes: "AttributeTypeAndValue list")

text \<open>\<^verbatim>\<open>DN.RDNIndex\<close> is a memo table of \<^verbatim>\<open>DN.RDN()\<close> and is left out.\<close>

datatype DN = DN (RDNs: "RelativeDN list")

text \<open>\<^verbatim>\<open>strings.Builder\<close> loops that join with a separator.\<close>

fun join :: "string \<Rightarrow> string list \<Rightarrow> string" where
  "join sep [] = []"
| "join sep [x] = x"
| "join sep (x # y # ys) = x @ sep @ join sep (y # ys)"

definition rdn_NormStr :: "RelativeDN \<Rightarrow> string" where
  "rdn_NormStr r = join ''+'' (map (\<lambda>a. TypeNorm a @ ''='' @ ValueNorm a) (Attributes r))"

definition OrigEncodedStr :: "RelativeDN \<Rightarrow> string" where
  "OrigEncodedStr r =
     join ''+'' (map (\<lambda>a. TypeOrig a @ ''='' @ ValueOrigEncoded a) (Attributes r))"

definition DNNormStr :: "DN \<Rightarrow> string" where
  "DNNormStr d = join '','' (map rdn_NormStr (RDNs d))"

definition DNOrigStr :: "DN \<Rightarrow> string" where
  "DNOrigStr d = join '','' (map OrigEncodedStr (RDNs d))"

section \<open>Schema registry and schema values (schema package)\<close>

text \<open>
  \<^verbatim>\<open>strings.ToLower\<close> on the ASCII letters; bytes outside \<open>A\<close>..\<open>Z\<close> are kept
  (the library also maps upper-case letters beyond ASCII).
\<close>

definition lower_char :: "char \<Rightarrow> char" where
  "lower_char c =
     (let n = (of_char c :: nat) in if 65 \<le> n \<and> n \<le> 90 then char_of (n + 32) else c)"

definition ToLower :: "string \<Rightarrow> string" where
  "ToLower s = map lower_char s"

record AttributeType =
  Name :: string
  Equality :: string
  Ordering :: string
  Substr :: string
  Usage :: string
  SingleValue :: bool
  NoUserModification :: bool

record ObjectClass =
  oc_Name :: string
  oc_Sup :: string
  Structural :: bool
  Abstruct :: bool
  Auxiliary :: bool

text \<open>
  The registry: its two tables (keyed by the lower-cased name, as
  \<^verbatim>\<open>PutAttributeType\<close> and \<^verbatim>\<open>PutObjectClass\<close> store them) and the
  \<^verbatim>\<open>MigrationEnabled\<close> flag of its configuration.
\<close>

record SchemaRegistry =
  AttributeTypes :: "string \<Rightarrow> AttributeType option"
  ObjectClasses :: "string \<Rightarrow> ObjectClass option"
  MigrationEnabled :: bool

definition sr_AttributeType :: "SchemaRegistry \<Rightarrow> string \<Rightarrow> AttributeType option" where
  "sr_AttributeType sr k = AttributeTypes sr (ToLower k)"

definition sr_ObjectClass :: "SchemaRegistry \<Rightarrow> string \<Rightarrow> ObjectClass option" where
  "sr_ObjectClass sr k = ObjectClasses sr (ToLower k)"

datatype NormValue = NString string | NInt int | NDN DN

text \<open>
  \<^verbatim>\<open>SchemaValue\<close>: the original values, their normalised forms, the normalised
  strings and the index of the normalised strings (a \<^verbatim>\<open>map[string]struct{}\<close>, that
  is, a set). The pointer to the registry held by the attribute type is passed
  separately where a function follows it.
\<close>

record SchemaValue =
  schema :: AttributeType
  orig :: "string list"
  norm :: "NormValue list"
  normStr :: "string list"
  normIndex :: "string set"

definition sv_Name :: "SchemaValue \<Rightarrow> string" where
  "sv_Name s = Name (schema s)"

definition IsSingle :: "SchemaValue \<Rightarrow> bool" where
  "IsSingle s = SingleValue (schema s)"

definition IsEmpty :: "SchemaValue \<Rightarrow> bool" where
  "IsEmpty s = (length (orig s) = 0)"

definition IsNoUserModificationWithMigrationDisabled :: "SchemaRegistry \<Rightarrow> SchemaValue \<Rightarrow> bool" where
  "IsNoUserModificationWithMigrationDisabled sr s =
     (\<not> MigrationEnabled sr \<and> NoUserModification (schema s))"

text \<open>
  \<^verbatim>\<open>SchemaValue.Diff\<close>. A returned slice is \<open>None\<close> when the source returns
  \<^verbatim>\<open>nil\<close>; \<^verbatim>\<open>add\<close> and \<^verbatim>\<open>del\<close> start as empty, non-nil slices. Reading
  \<^verbatim>\<open>NormStr()[0]\<close> or \<^verbatim>\<open>normStr[i]\<close> beyond the slice panics.
\<close>

definition Diff ::
  "SchemaValue \<Rightarrow> SchemaValue \<Rightarrow>
   error + (string list option \<times> string list option \<times> string list option)" where
  "Diff s base =
     (if IsSingle s \<and> (normStr s = [] \<or> normStr base = [])
      then Inl (Panic ''index out of range'')
      else if IsSingle s \<and> take 1 (normStr s) = take 1 (normStr base)
      then Inr (None, None, None)
      else if length (normStr s) < length (orig s)
              \<or> length (normStr base) < length (orig base)
      then Inl (Panic ''index out of range'')
      else
        let add = map fst (filter (\<lambda>(v, nv). nv \<notin> normIndex base) (zip (orig s) (normStr s)));
            del = map fst (filter (\<lambda>(v, nv). nv \<notin> normIndex s)
                                  (zip (orig base) (normStr base)))
        in if length del = length (normStr base) then Inr (None, Some (orig s), None)
           else Inr (Some add, None, Some del))"

text \<open>\<^verbatim>\<open>SchemaValue.Clear\<close>.\<close>

definition Clear :: "SchemaValue \<Rightarrow> SchemaValue" where
  "Clear s = s\<lparr>orig := [], norm := [], normStr := [], normIndex := {}\<rparr>"

text \<open>
  \<^verbatim>\<open>SchemaValue.Delete\<close>. The second loop copies the entries whose normalised
  string is not to be deleted into slices made with
  \<^verbatim>\<open>len(s.value) - len(value.value)\<close> elements: \<^verbatim>\<open>make\<close> with a negative length,
  a write beyond that length and a read beyond \<^verbatim>\<open>s.value\<close> or \<^verbatim>\<open>s.norm\<close> panic,
  and slots that are not written keep the zero value.
\<close>

definition sv_Delete :: "SchemaValue \<Rightarrow> SchemaValue \<Rightarrow> error + SchemaValue" where
  "sv_Delete s v =
     (if list_ex (\<lambda>x. x \<notin> normIndex s) (normStr v)
      then Inl (NoSuchAttribute ''modify/delete'' (sv_Name v))
      else if length (orig s) < length (orig v)
      then Inl (Panic ''makeslice: len out of range'')
      else
        let n = length (orig s) - length (orig v);
            kept = filter (\<lambda>j. normStr s ! j \<notin> normIndex v) [0..<length (normStr s)]
        in if n < length kept
              \<or> list_ex (\<lambda>j. length (orig s) \<le> j \<or> length (norm s) \<le> j) kept
           then Inl (Panic ''index out of range'')
           else Inr (s\<lparr>orig := map (\<lambda>j. orig s ! j) kept @ replicate (n - length kept) [],
                       norm := map (\<lambda>j. norm s ! j) kept
                               @ replicate (n - length kept) (NString []),
                       normStr := map (\<lambda>j. normStr s ! j) kept
                                  @ replicate (n - length kept) [],
                       normIndex := set (map (\<lambda>j. normStr s ! j) kept)\<rparr>))"

section \<open>Changelog (repo package)\<close>

record ModOperation =
  op_Add :: "string list"
  op_Replace :: "string list"
  op_Delete :: "string list"

definition IsAdd :: "ModOperation \<Rightarrow> bool" where
  "IsAdd m = (length (op_Add m) > 0)"

definition IsReplace :: "ModOperation \<Rightarrow> bool" where
  "IsReplace m = (length (op_Replace m) > 0)"

definition IsDelete :: "ModOperation \<Rightarrow> bool" where
  "IsDelete m = (length (op_Delete m) > 0)"

definition IsClear :: "ModOperation \<Rightarrow> bool" where
  "IsClear m = (\<not> IsAdd m \<and> \<not> IsReplace m \<and> \<not> IsDelete m)"

text \<open>\<^verbatim>\<open>&ModOperation{}\<close>: the three slices are \<^verbatim>\<open>nil\<close>.\<close>

definition emptyOp :: ModOperation where
  "emptyOp = \<lparr>op_Add = [], op_Replace = [], op_Delete = []\<rparr>"

text \<open>
  The changelog: the registry, the target DN, the optional new DN, the projected
  new entry and the snapshot of the old one (maps from attribute name to value), the
  set of touched attribute names, the requester and the timestamp.
\<close>

record Changelog =
  c_schema :: SchemaRegistry
  c_dn :: DN
  c_newDN :: "DN option"
  newEntry :: "string \<Rightarrow> SchemaValue option"
  oldEntry :: "string \<Rightarrow> SchemaValue option"
  changed :: "string set"
  requester :: DN
  timestamp :: string

text \<open>
  \<^verbatim>\<open>Changelog.ToDiff\<close>. The source builds a map by ranging over \<^verbatim>\<open>c.changed\<close>;
  the entry it stores under a key depends on that key only, so the map is given here
  as a function of the key: \<open>Inr None\<close> for a key with no entry, \<open>Inl\<close> when the
  iteration for that key panics (which aborts the call). \<open>ToDiff_old\<close> is the branch
  taken when both the new and the old value are present and non-empty.
\<close>

definition ToDiff_old :: "SchemaValue \<Rightarrow> SchemaValue \<Rightarrow> error + ModOperation option" where
  "ToDiff_old nsv osv =
     (case Diff nsv osv of
        Inl e \<Rightarrow> Inl e
      | Inr (add, replace, del) \<Rightarrow>
          if add = None \<and> length (case_option [] id replace) = 0 \<and> del = None
          then Inr (Some emptyOp)
          else if length (case_option [] id replace) > 0
          then Inr (Some (emptyOp\<lparr>op_Replace := case_option [] id replace\<rparr>))
          else if length (case_option [] id add) > 0 \<or> length (case_option [] id del) > 0
          then Inr (Some (emptyOp\<lparr>op_Add := case_option [] id add,
                                    op_Delete := case_option [] id del\<rparr>))
          else Inr None)"

definition ToDiff :: "Changelog \<Rightarrow> string \<Rightarrow> error + ModOperation option" where
  "ToDiff c k =
     (if k \<notin> changed c then Inr None
      else (case newEntry c k of
        None \<Rightarrow> Inr (Some emptyOp)
      | Some nsv \<Rightarrow>
          if IsEmpty nsv then Inr (Some emptyOp)
          else (case oldEntry c (sv_Name nsv) of
            None \<Rightarrow> Inr (Some (emptyOp\<lparr>op_Replace := orig nsv\<rparr>))
          | Some osv \<Rightarrow>
              if IsEmpty osv then Inr (Some (emptyOp\<lparr>op_Replace := orig nsv\<rparr>))
              else ToDiff_old nsv osv)))"

text \<open>\<^verbatim>\<open>Changelog.record\<close>.\<close>

definition record_change :: "Changelog \<Rightarrow> SchemaValue \<Rightarrow> Changelog" where
  "record_change c v = c\<lparr>changed := insert (sv_Name v) (changed c)\<rparr>"

text \<open>\<^verbatim>\<open>Changelog.ObjectClassesNorm\<close>.\<close>

definition ObjectClassesNorm :: "Changelog \<Rightarrow> string list option" where
  "ObjectClassesNorm c =
     (case newEntry c ''objectClass'' of
        None \<Rightarrow> None
      | Some v \<Rightarrow> if IsEmpty v then None else Some (normStr v))"

text \<open>
  The guard on \<^verbatim>\<open>objectClass\<close> shared by \<^verbatim>\<open>Replace\<close> and \<^verbatim>\<open>Delete\<close>: the loop
  over the given class names. \<open>reject oc\<close> is the test that differs between the two;
  \<^verbatim>\<open>stoc[0]\<close> panics on an empty slice.
\<close>

fun objectClass_guard ::
  "SchemaRegistry \<Rightarrow> (ObjectClass \<Rightarrow> error option) \<Rightarrow> nat \<Rightarrow> string list \<Rightarrow> error option" where
  "objectClass_guard sr reject i [] = None"
| "objectClass_guard sr reject i (v # vs) =
     (case sr_ObjectClass sr v of
        None \<Rightarrow> Some (InvalidPerSyntax ''objectClass'' i)
      | Some oc \<Rightarrow>
          (case reject oc of
             Some e \<Rightarrow> Some e
           | None \<Rightarrow> objectClass_guard sr reject (Suc i) vs))"

text \<open>\<^verbatim>\<open>Changelog.replacesv\<close> and \<^verbatim>\<open>Changelog.Replace\<close>.\<close>

definition replacesv :: "Changelog \<Rightarrow> SchemaValue \<Rightarrow> Changelog" where
  "replacesv c v =
     (if IsEmpty v then c\<lparr>newEntry := (newEntry c)(sv_Name v := None)\<rparr>
      else c\<lparr>newEntry := (newEntry c)(sv_Name v \<mapsto> v)\<rparr>)"

definition Replace :: "Changelog \<Rightarrow> SchemaValue \<Rightarrow> error option \<times> Changelog" where
  "Replace c sv =
     (if IsNoUserModificationWithMigrationDisabled (c_schema c) sv
      then (Some (NoUserModificationAllowedConstraintViolation (sv_Name sv)), c)
      else
        let guard =
          (if sv_Name sv = ''objectClass'' then
             (case ObjectClassesNorm c of
                None \<Rightarrow> Some OperationsError
              | Some stoc \<Rightarrow>
                  objectClass_guard (c_schema c)
                    (\<lambda>oc. if Structural oc
                          then (case stoc of
                                  [] \<Rightarrow> Some (Panic ''index out of range'')
                                | s0 # _ \<Rightarrow> Some (ObjectClassModsProhibited s0 (oc_Name oc)))
                          else None)
                    0 (orig sv))
           else None)
        in case guard of
             Some e \<Rightarrow> (Some e, c)
           | None \<Rightarrow> (None, record_change (replacesv c sv) sv))"

text \<open>\<^verbatim>\<open>Changelog.HasAttr\<close>.\<close>

definition HasAttr :: "Changelog \<Rightarrow> string \<Rightarrow> bool" where
  "HasAttr c attrName =
     (case sr_AttributeType (c_schema c) attrName of
        None \<Rightarrow> False
      | Some s \<Rightarrow>
          (case newEntry c (Name s) of
             None \<Rightarrow> False
           | Some sv \<Rightarrow> \<not> IsEmpty sv))"

text \<open>
  \<^verbatim>\<open>Changelog.deleteAll\<close>: \<^verbatim>\<open>c.newEntry[s.Name].Clear()\<close> clears the value in
  place (a missing key would be a nil dereference).
\<close>

definition deleteAll :: "Changelog \<Rightarrow> AttributeType \<Rightarrow> error option \<times> Changelog" where
  "deleteAll c s =
     (if \<not> HasAttr c (Name s) then (Some (NoSuchAttribute ''modify/delete'' (Name s)), c)
      else (case newEntry c (Name s) of
        None \<Rightarrow> (Some (Panic ''nil pointer dereference''), c)
      | Some cur \<Rightarrow> (None, c\<lparr>newEntry := (newEntry c)(Name s \<mapsto> Clear cur)\<rparr>)))"

text \<open>
  \<^verbatim>\<open>Changelog.deletesv\<close>: \<^verbatim>\<open>current.Delete(value)\<close> changes the stored value in
  place when it succeeds.
\<close>

definition deletesv :: "Changelog \<Rightarrow> SchemaValue \<Rightarrow> error option \<times> Changelog" where
  "deletesv c v =
     (if IsEmpty v then deleteAll c (schema v)
      else (case newEntry c (sv_Name v) of
        None \<Rightarrow> (Some (NoSuchAttribute ''modify/delete'' (sv_Name v)), c)
      | Some current \<Rightarrow>
          (case sv_Delete current v of
             Inl e \<Rightarrow> (Some e, c)
           | Inr current' \<Rightarrow> (None, c\<lparr>newEntry := (newEntry c)(sv_Name v \<mapsto> current')\<rparr>))))"

text \<open>\<^verbatim>\<open>Changelog.Delete\<close>.\<close>

definition Delete :: "Changelog \<Rightarrow> SchemaValue \<Rightarrow> error option \<times> Changelog" where
  "Delete c sv =
     (if IsNoUserModificationWithMigrationDisabled (c_schema c) sv
      then (Some (NoUserModificationAllowedConstraintViolation (sv_Name sv)), c)
      else
        let guard =
          (if sv_Name sv = ''objectClass'' then
             (case ObjectClassesNorm c of
                None \<Rightarrow> Some OperationsError
              | Some stoc \<Rightarrow>
                  objectClass_guard (c_schema c)
                    (\<lambda>oc. if Structural oc
                          then (case stoc of
                                  [] \<Rightarrow> Some (Panic ''index out of range'')
                                | s0 # _ \<Rightarrow>
                                    if s0 = oc_Name oc then Some ObjectClassViolation else None)
                          else None)
                    0 (orig sv))
           else None)
        in case guard of
             Some e \<Rightarrow> (Some e, c)
           | None \<Rightarrow>
               (case deletesv c sv of
                  (Some e, c') \<Rightarrow> (Some e, c')
                | (None, c') \<Rightarrow> (None, record_change c' sv)))"

section \<open>A small registry and changelog for concrete evaluation\<close>

text \<open>
  Two attribute types as the OpenLDAP core schema declares them: \<^verbatim>\<open>displayName\<close>
  (case-ignore, single-valued) and \<^verbatim>\<open>cn\<close> (case-ignore, multi-valued).
\<close>

definition at_displayName :: AttributeType where
  "at_displayName =
     \<lparr>Name = ''displayName'', Equality = ''caseIgnoreMatch'', Ordering = [],
      Substr = ''caseIgnoreSubstringsMatch'', Usage = [], SingleValue = True,
      NoUserModification = False\<rparr>"

definition at_cn :: AttributeType where
  "at_cn =
     \<lparr>Name = ''cn'', Equality = ''caseIgnoreMatch'', Ordering = [],
      Substr = ''caseIgnoreSubstringsMatch'', Usage = [], SingleValue = False,
      NoUserModification = False\<rparr>"

definition ex_registry :: SchemaRegistry where
  "ex_registry =
     \<lparr>AttributeTypes = (\<lambda>k. if k = ''displayname'' then Some at_displayName
                             else if k = ''cn'' then Some at_cn else None),
      ObjectClasses = (\<lambda>k. None),
      MigrationEnabled = False\<rparr>"

text \<open>
  The schema values that \<^verbatim>\<open>NewSchemaValue\<close> builds for \<^verbatim>\<open>displayName: Alice\<close>,
  for \<^verbatim>\<open>displayName: Bob\<close> and for \<^verbatim>\<open>displayName\<close> with no value: the normalised
  string of a case-ignore value is its lower-case form.
\<close>

definition sv_Alice :: SchemaValue where
  "sv_Alice =
     \<lparr>schema = at_displayName, orig = [''Alice''], norm = [NString ''alice''],
      normStr = [''alice''], normIndex = {''alice''}\<rparr>"

definition sv_Bob :: SchemaValue where
  "sv_Bob =
     \<lparr>schema = at_displayName, orig = [''Bob''], norm = [NString ''bob''],
      normStr = [''bob''], normIndex = {''bob''}\<rparr>"

definition sv_none :: SchemaValue where
  "sv_none =
     \<lparr>schema = at_displayName, orig = [], norm = [], normStr = [], normIndex = {}\<rparr>"

definition anonymousDN :: DN where
  "anonymousDN = DN []"

text \<open>
  The changelog that \<^verbatim>\<open>NewChangelog\<close> builds for an entry whose only attribute
  is \<^verbatim>\<open>displayName: Alice\<close>: the value in \<^verbatim>\<open>newEntry\<close>, its clone in
  \<^verbatim>\<open>oldEntry\<close>, nothing touched yet.
\<close>

definition ex_changelog :: Changelog where
  "ex_changelog =
     \<lparr>c_schema = ex_registry, c_dn = anonymousDN, c_newDN = None,
      newEntry = [''displayName'' \<mapsto> sv_Alice],
      oldEntry = [''displayName'' \<mapsto> sv_Alice],
      changed = {}, requester = anonymousDN, timestamp = ''20200101000000Z''\<rparr>"

text \<open>What the claims call the values of an attribute and the presence of a value.\<close>

definition attr_values :: "Changelog \<Rightarrow> string \<Rightarrow> string list" where
  "attr_values c n = (case newEntry c n of None \<Rightarrow> [] | Some sv \<Rightarrow> orig sv)"

definition present :: "Changelog \<Rightarrow> string \<Rightarrow> string \<Rightarrow> bool" where
  "present c n x = (case newEntry c n of None \<Rightarrow> False | Some cur \<Rightarrow> x \<in> normIndex cur)"

definition old_values :: "Changelog \<Rightarrow> string \<Rightarrow> string list" where
  "old_values c n = (case oldEntry c n of None \<Rightarrow> [] | Some sv \<Rightarrow> orig sv)"

section \<open>The durable store (table \<^verbatim>\<open>entry\<close>) and the notification channel\<close>

text \<open>
  A row of the table \<^verbatim>\<open>entry\<close>. The 64-bit integers are modelled as
  \<^typ>\<open>int\<close>: the code only compares them, and PostgreSQL raises an error instead
  of wrapping when \<^verbatim>\<open>rev + 1\<close> leaves the range. The column \<^verbatim>\<open>path\<close> is
  nullable; \<^verbatim>\<open>NULL\<close> and the empty array behave alike in every statement of the
  repository (a containment test against a non-empty array, a scan into a slice)
  and both are the empty list. \<^verbatim>\<open>attrs_orig\<close> is a JSON object from attribute
  names to arrays of strings.
\<close>

record DBEntry =
  ID :: int
  UUID :: string
  Version :: int
  ParentID :: int
  Path :: "int list"
  IsContainer :: bool
  RDNNorm :: string
  RDNOrig :: string
  AttrsOrig :: "string \<Rightarrow> string list option"

text \<open>\<^verbatim>\<open>NotifyOp\<close> is a string type with four named values.\<close>

definition NotifyAdd :: string where "NotifyAdd = ''add''"
definition NotifyMod :: string where "NotifyMod = ''mod''"
definition NotifyModRDN :: string where "NotifyModRDN = ''modrdn''"
definition NotifyDel :: string where "NotifyDel = ''del''"

record NotifyMessage =
  Issuer :: string
  m_ID :: int
  Op :: string
  Rev :: int
  Association :: bool
  Dependant :: "int list"
  Sub :: bool

definition m_IsAdd :: "NotifyMessage \<Rightarrow> bool" where
  "m_IsAdd n = (Op n = NotifyAdd)"

definition m_IsMod :: "NotifyMessage \<Rightarrow> bool" where
  "m_IsMod n = (Op n = NotifyMod \<or> Op n = NotifyModRDN)"

definition m_IsDel :: "NotifyMessage \<Rightarrow> bool" where
  "m_IsDel n = (Op n = NotifyDel)"

text \<open>
  The state of the durable store inside a transaction: the rows, the sequence that
  allocates ids, and the messages passed to \<^verbatim>\<open>pg_notify\<close> (delivered at commit).
\<close>

record DB =
  rows :: "DBEntry list"
  seq :: int
  notified :: "NotifyMessage list"

text \<open>An error raised by PostgreSQL, with its SQLSTATE code.\<close>

definition PgError :: "string \<Rightarrow> error" where
  "PgError code = OtherError (''pq: '' @ code)"

text \<open>The constraints \<^verbatim>\<open>uniq_entry\<close>, \<^verbatim>\<open>uniq_uuid\<close> and \<^verbatim>\<open>fk_id\<close>.\<close>

definition constraints_ok :: "DBEntry list \<Rightarrow> bool" where
  "constraints_ok rs =
     (distinct (map ID rs)
      \<and> distinct (map (\<lambda>e. (ParentID e, RDNNorm e)) rs)
      \<and> distinct (map UUID rs)
      \<and> list_all (\<lambda>e. ParentID e \<in> set (map ID rs)) rs)"

text \<open>
  An \<^verbatim>\<open>UPDATE ... WHERE\<close>: the rows that satisfy \<open>pred\<close> are rewritten by \<open>upd\<close>,
  which gives \<open>None\<close> when \<^verbatim>\<open>rev + 1\<close> is out of range (SQLSTATE 22003); the
  statement fails when the result breaks a unique key (23505) and otherwise reports
  the number of rows it changed.
\<close>

definition sql_update ::
  "(DBEntry \<Rightarrow> bool) \<Rightarrow> (DBEntry \<Rightarrow> DBEntry option) \<Rightarrow> DB \<Rightarrow> error + (nat \<times> DB)" where
  "sql_update pred upd db =
     (if list_ex (\<lambda>e. pred e \<and> upd e = None) (rows db) then Inl (PgError ''22003'')
      else
        let rs = map (\<lambda>e. if pred e then (case upd e of Some e' \<Rightarrow> e' | None \<Rightarrow> e) else e)
                     (rows db)
        in if constraints_ok rs then Inr (length (filter pred (rows db)), db\<lparr>rows := rs\<rparr>)
           else Inl (PgError ''23505''))"

definition bump_rev :: "DBEntry \<Rightarrow> DBEntry option" where
  "bump_rev e = (if Version e = INT64_MAX then None else Some (e\<lparr>Version := Version e + 1\<rparr>))"

text \<open>A \<^verbatim>\<open>SELECT ... WHERE e.id = :id\<close> read with \<^verbatim>\<open>Get\<close>: the row or \<^verbatim>\<open>sql.ErrNoRows\<close>.\<close>

definition db_get :: "DB \<Rightarrow> int \<Rightarrow> error + DBEntry" where
  "db_get db i = (case find (\<lambda>e. ID e = i) (rows db) of None \<Rightarrow> Inl ErrNoRows | Some e \<Rightarrow> Inr e)"

text \<open>
  The sub-select \<^verbatim>\<open>(SELECT path FROM entry WHERE id = e.parent_id)\<close> of the locking
  statements: the path of the parent row (\<^verbatim>\<open>NULL\<close> without one).
\<close>

definition parent_path :: "DB \<Rightarrow> DBEntry \<Rightarrow> int list" where
  "parent_path db e =
     (case find (\<lambda>p. ID p = ParentID e) (rows db) of None \<Rightarrow> [] | Some p \<Rightarrow> Path p)"

text \<open>The prepared statement \<^verbatim>\<open>updateContainer\<close>.\<close>

definition updateContainer :: "DB \<Rightarrow> int \<Rightarrow> int \<Rightarrow> int list \<Rightarrow> bool \<Rightarrow> error + (nat \<times> DB)" where
  "updateContainer db i rv path is_container =
     sql_update (\<lambda>e. ID e = i \<and> Version e = rv \<and> IsContainer e \<noteq> is_container)
       (\<lambda>e. map_option (\<lambda>e'. e'\<lparr>Path := path, IsContainer := is_container\<rparr>) (bump_rev e)) db"

text \<open>\<^verbatim>\<open>notify\<close>: the message is queued in the transaction.\<close>

definition notify :: "DB \<Rightarrow> NotifyMessage \<Rightarrow> DB" where
  "notify db m = db\<lparr>notified := notified db @ [m]\<rparr>"

text \<open>
  The method \<^verbatim>\<open>addMemberOf\<close>: one \<^verbatim>\<open>UPDATE ... WHERE id IN (:id)\<close> that appends
  the new member's id to \<^verbatim>\<open>memberOf\<close> and increments \<^verbatim>\<open>rev\<close>. The ids are the
  decimal strings built by \<^verbatim>\<open>dnStrArrayToIDStrArray\<close>. When the number of updated
  rows differs from the number of ids the source returns \<^verbatim>\<open>reportError(err)\<close>
  with a nil \<^verbatim>\<open>err\<close>, and \<^verbatim>\<open>errors.Wrapf\<close> of nil is nil: no error.
\<close>

definition addMemberOf :: "DB \<Rightarrow> string list \<Rightarrow> int \<Rightarrow> error + DB" where
  "addMemberOf db ids i =
     (if length ids = 0 then Inr db
      else if \<not> list_all (\<lambda>s. ParseInt s \<noteq> None) ids then Inl (PgError ''22P02'')
      else
        (case sql_update (\<lambda>e. Some (ID e) \<in> set (map ParseInt ids))
                (\<lambda>e. map_option
                        (\<lambda>e'. e'\<lparr>AttrsOrig := (AttrsOrig e')(''memberOf'' \<mapsto>
                                  case_option [] id (AttrsOrig e' ''memberOf'') @ [FormatInt i])\<rparr>)
                        (bump_rev e)) db of
           Inl e \<Rightarrow> Inl e
         | Inr (n, db') \<Rightarrow> Inr db'))"

section \<open>The cache index (namespace \<^verbatim>\<open>entries\<close>)\<close>

record CacheEntry =
  c_ID :: int
  c_Version :: int
  c_ParentID :: int
  c_Path :: "int list"
  c_IsContainer :: bool
  c_RDNNorm :: string
  c_RDNOrig :: string
  c_AttrsNorm :: "string \<Rightarrow> NormValue list option"
  c_AttrsOrig :: "string \<Rightarrow> string list option"

text \<open>
  The cache is the list of its documents. Inside a cache transaction the model reads
  the committed documents together with the transaction's own writes; a rollback
  keeps the list the transaction started from.
\<close>

definition cache_find :: "CacheEntry list \<Rightarrow> int \<Rightarrow> CacheEntry option" where
  "cache_find cache i = find (\<lambda>e. c_ID e = i) cache"

definition cache_upsert :: "CacheEntry \<Rightarrow> CacheEntry list \<Rightarrow> CacheEntry list" where
  "cache_upsert e cache =
     (if list_ex (\<lambda>x. c_ID x = c_ID e) cache
      then map (\<lambda>x. if c_ID x = c_ID e then e else x) cache
      else cache @ [e])"

text \<open>
  The two normalisations that \<^verbatim>\<open>CacheEntry\<close> asks of the schema registry, taken
  as parameters: the normalised attributes of \<^verbatim>\<open>attrs_orig\<close> (through
  \<^verbatim>\<open>NewSchemaValue\<close> and \<^verbatim>\<open>Normalize\<close>) and the normalised RDN string of
  \<^verbatim>\<open>rdn_orig\<close> (through \<^verbatim>\<open>NormalizeDN\<close>). Either can fail.
\<close>

record Projection =
  normAttrs :: "(string \<Rightarrow> string list option) \<Rightarrow> error + (string \<Rightarrow> NormValue list option)"
  normRDN :: "string \<Rightarrow> error + string"

text \<open>\<^verbatim>\<open>CacheEntry\<close>: project a row and upsert the document.\<close>

definition CacheEntry_upsert ::
  "Projection \<Rightarrow> CacheEntry list \<Rightarrow> DBEntry \<Rightarrow> error + CacheEntry list" where
  "CacheEntry_upsert pj cache entry =
     (case normAttrs pj (AttrsOrig entry) of
        Inl e \<Rightarrow> Inl e
      | Inr an \<Rightarrow>
          (case normRDN pj (RDNOrig entry) of
             Inl e \<Rightarrow> Inl e
           | Inr rn \<Rightarrow>
               Inr (cache_upsert
                      \<lparr>c_ID = ID entry, c_Version = Version entry, c_ParentID = ParentID entry,
                       c_Path = Path entry, c_IsContainer = IsContainer entry, c_RDNNorm = rn,
                       c_RDNOrig = RDNOrig entry, c_AttrsNorm = an,
                       c_AttrsOrig = AttrsOrig entry\<rparr> cache)))"

text \<open>\<^verbatim>\<open>shouldVersionUpdated\<close>.\<close>

definition shouldVersionUpdated :: "int \<Rightarrow> int \<Rightarrow> bool" where
  "shouldVersionUpdated dbVersion cacheVersion =
     (dbVersion < 0 \<and> cacheVersion > 0 \<or> dbVersion > cacheVersion)"

text \<open>
  The loop of \<^verbatim>\<open>CacheAssociation\<close> over the fetched rows. Its query selects
  neither \<^verbatim>\<open>path\<close> nor \<^verbatim>\<open>is_container\<close>, so the scanned struct has their zero
  values.
\<close>

fun CacheAssociation_rows ::
  "Projection \<Rightarrow> CacheEntry list \<Rightarrow> DBEntry list \<Rightarrow> error + CacheEntry list" where
  "CacheAssociation_rows pj cache [] = Inr cache"
| "CacheAssociation_rows pj cache (r # rs) =
     (let dbdest = r\<lparr>Path := [], IsContainer := False\<rparr> in
      case cache_find cache (ID r) of
        Some cdest \<Rightarrow>
          if shouldVersionUpdated (Version dbdest) (c_Version cdest)
          then (case CacheEntry_upsert pj cache dbdest of
                  Inl e \<Rightarrow> Inl e
                | Inr cache' \<Rightarrow> CacheAssociation_rows pj cache' rs)
          else CacheAssociation_rows pj cache rs
      | None \<Rightarrow>
          (case CacheEntry_upsert pj cache dbdest of
             Inl e \<Rightarrow> Inl e
           | Inr cache' \<Rightarrow> CacheAssociation_rows pj cache' rs))"

definition CacheAssociation ::
  "Projection \<Rightarrow> DB \<Rightarrow> CacheEntry list \<Rightarrow> int list \<Rightarrow> error + CacheEntry list" where
  "CacheAssociation pj db cache memberOf =
     (if length memberOf = 0 then Inr cache
      else CacheAssociation_rows pj cache (filter (\<lambda>e. ID e \<in> set memberOf) (rows db)))"

text \<open>
  \<^verbatim>\<open>CacheEntryByID\<close>. With \<open>assoc\<close> the ids written in \<^verbatim>\<open>member\<close> and
  \<^verbatim>\<open>uniqueMember\<close> are collected in a set (values that are not numbers are
  skipped) and re-projected.
\<close>

definition assoc_ids :: "(string \<Rightarrow> string list option) \<Rightarrow> int list" where
  "assoc_ids attrs =
     remdups (List.map_filter ParseInt
       (case_option [] id (attrs ''member'') @ case_option [] id (attrs ''uniqueMember'')))"

definition CacheEntryByID ::
  "Projection \<Rightarrow> DB \<Rightarrow> CacheEntry list \<Rightarrow> int \<Rightarrow> bool \<Rightarrow> error + CacheEntry list" where
  "CacheEntryByID pj db cache i assoc =
     (case db_get db i of
        Inl e \<Rightarrow> Inl e
      | Inr dbEntry \<Rightarrow>
          (case CacheEntry_upsert pj cache dbEntry of
             Inl e \<Rightarrow> Inl e
           | Inr cache' \<Rightarrow>
               if assoc then CacheAssociation pj db cache' (assoc_ids (AttrsOrig dbEntry))
               else Inr cache'))"

fun CacheEntryByID_all ::
  "Projection \<Rightarrow> DB \<Rightarrow> CacheEntry list \<Rightarrow> int list \<Rightarrow> error + CacheEntry list" where
  "CacheEntryByID_all pj db cache [] = Inr cache"
| "CacheEntryByID_all pj db cache (i # is) =
     (case CacheEntryByID pj db cache i False of
        Inl e \<Rightarrow> Inl e
      | Inr cache' \<Rightarrow> CacheEntryByID_all pj db cache' is)"

text \<open>\<^verbatim>\<open>CacheEntryBySubTree\<close>: the rows with \<^verbatim>\<open>path @> [id]\<close> other than the entry.\<close>

fun CacheEntry_rows ::
  "Projection \<Rightarrow> CacheEntry list \<Rightarrow> DBEntry list \<Rightarrow> error + CacheEntry list" where
  "CacheEntry_rows pj cache [] = Inr cache"
| "CacheEntry_rows pj cache (r # rs) =
     (case CacheEntry_upsert pj cache r of
        Inl e \<Rightarrow> Inl e
      | Inr cache' \<Rightarrow> CacheEntry_rows pj cache' rs)"

definition CacheEntryBySubTree ::
  "Projection \<Rightarrow> DB \<Rightarrow> CacheEntry list \<Rightarrow> int \<Rightarrow> error + CacheEntry list" where
  "CacheEntryBySubTree pj db cache i =
     CacheEntry_rows pj cache (filter (\<lambda>e. i \<in> set (Path e) \<and> ID e \<noteq> i) (rows db))"

text \<open>
  Reading \<^verbatim>\<open>attrsNorm.member\<close> and its siblings into \<^verbatim>\<open>[]int64\<close>: a value that
  is not a number makes \<^verbatim>\<open>json.Unmarshal\<close> fail.
\<close>

fun ints_of :: "NormValue list \<Rightarrow> int list option" where
  "ints_of [] = Some []"
| "ints_of (NInt i # vs) = map_option ((#) i) (ints_of vs)"
| "ints_of (v # vs) = None"

text \<open>
  \<^verbatim>\<open>DeleteCacheEntry\<close>. \<open>committed\<close> is the cache outside the transaction, which
  the association lookup reads.
\<close>

definition DeleteCacheEntry ::
  "Projection \<Rightarrow> DB \<Rightarrow> CacheEntry list \<Rightarrow> CacheEntry list \<Rightarrow> int \<Rightarrow> int \<Rightarrow> bool \<Rightarrow>
   error + (nat \<times> CacheEntry list)" where
  "DeleteCacheEntry pj db committed cache i parentId acc =
     (let deleted = length (filter (\<lambda>e. c_ID e = i) cache);
          cache1 = filter (\<lambda>e. c_ID e \<noteq> i) cache;
          cache2 = (if list_ex (\<lambda>e. c_ParentID e = parentId) cache1 then cache1
                    else map (\<lambda>e. if c_ID e = parentId
                                  then e\<lparr>c_IsContainer := False, c_Path := []\<rparr> else e) cache1)
      in if \<not> acc then Inr (deleted, cache2)
         else (case cache_find committed i of
                 None \<Rightarrow> Inr (deleted, cache2)
               | Some d \<Rightarrow>
                   (case ints_of (case_option [] id (c_AttrsNorm d ''member'')
                                  @ case_option [] id (c_AttrsNorm d ''uniqueMember'')
                                  @ case_option [] id (c_AttrsNorm d ''memberOf'')) of
                      None \<Rightarrow> Inl (OtherError ''json: cannot unmarshal'')
                    | Some v \<Rightarrow>
                        (case CacheAssociation pj db cache2 (remdups v) of
                           Inl e \<Rightarrow> Inl e
                         | Inr cache3 \<Rightarrow> Inr (deleted, cache3)))))"

text \<open>
  \<^verbatim>\<open>OnUpdate\<close> for a non-nil message: the error (if any) and the cache afterwards.
  Every error path rolls the cache transaction back. \<open>doUpdate\<close> is the flag of the
  same name.
\<close>

definition doUpdate :: "CacheEntry list \<Rightarrow> NotifyMessage \<Rightarrow> bool" where
  "doUpdate cache m =
     (case cache_find cache (m_ID m) of
        Some dest \<Rightarrow> shouldVersionUpdated (Rev m) (c_Version dest)
      | None \<Rightarrow> True)"

definition OnUpdate_upsert ::
  "Projection \<Rightarrow> DB \<Rightarrow> CacheEntry list \<Rightarrow> NotifyMessage \<Rightarrow> error + CacheEntry list" where
  "OnUpdate_upsert pj db cache m =
     (case CacheEntryByID pj db cache (m_ID m) (Association m) of
        Inl e \<Rightarrow> Inl e
      | Inr cache1 \<Rightarrow>
          (case CacheEntryByID_all pj db cache1 (Dependant m) of
             Inl e \<Rightarrow> Inl e
           | Inr cache2 \<Rightarrow>
               if Sub m then CacheEntryBySubTree pj db cache2 (m_ID m) else Inr cache2))"

definition OnUpdate ::
  "Projection \<Rightarrow> DB \<Rightarrow> CacheEntry list \<Rightarrow> NotifyMessage \<Rightarrow> error option \<times> CacheEntry list" where
  "OnUpdate pj db cache m =
     (if (m_IsAdd m \<or> m_IsMod m) \<and> doUpdate cache m then
        (case OnUpdate_upsert pj db cache m of
           Inl e \<Rightarrow> (Some e, cache)
         | Inr cache' \<Rightarrow> (None, cache'))
      else if m_IsDel m then
        (case DeleteCacheEntry pj db cache cache (m_ID m)
                (case cache_find cache (m_ID m) of None \<Rightarrow> 0 | Some dest \<Rightarrow> c_ParentID dest)
                True of
           Inl e \<Rightarrow> (Some e, cache)
         | Inr (deleted, cache') \<Rightarrow> (None, cache'))
      else (None, cache))"

text \<open>
  No cached revision is ahead of the durable store: every cached document is at most
  at the revision of the row with its id.
\<close>

definition cache_behind :: "DB \<Rightarrow> CacheEntry list \<Rightarrow> bool" where
  "cache_behind db cache =
     list_all (\<lambda>e. list_all (\<lambda>r. c_Version e \<le> Version r \<or> ID r \<noteq> c_ID e) (rows db)) cache"

text \<open>The guard as the claim words it: the message's revision strictly exceeds the cached one.\<close>

definition spec_should_upsert :: "CacheEntry list \<Rightarrow> NotifyMessage \<Rightarrow> bool" where
  "spec_should_upsert cache m =
     (case cache_find cache (m_ID m) of Some dest \<Rightarrow> c_Version dest < Rev m | None \<Rightarrow> True)"

subsection \<open>Invariants of the cache loops\<close>

text \<open>Rows as the cache loops see them: a row of the table, possibly with columns blanked.\<close>

definition row_image :: "DB \<Rightarrow> DBEntry \<Rightarrow> bool" where
  "row_image db r = (\<exists>r0\<in>set (rows db). ID r = ID r0 \<and> Version r = Version r0)"

text \<open>Every cached document is an old one or carries the revision of a row of the table.\<close>

definition from_db_or_old :: "DB \<Rightarrow> CacheEntry list \<Rightarrow> CacheEntry list \<Rightarrow> bool" where
  "from_db_or_old db c0 c =
     (\<forall>e'\<in>set c. (\<exists>e\<in>set c0. c_ID e = c_ID e' \<and> c_Version e = c_Version e')
                 \<or> (\<exists>r\<in>set (rows db). ID r = c_ID e' \<and> Version r = c_Version e'))"

text \<open>The cache holds revision \<open>v\<close> for the id \<open>i\<close>.\<close>

definition holds_rev :: "int \<Rightarrow> int \<Rightarrow> CacheEntry list \<Rightarrow> bool" where
  "holds_rev i v c = (\<exists>e. cache_find c i = Some e \<and> c_Version e = v)"

subsection \<open>A store, a cache and messages for concrete evaluation\<close>

text \<open>
  A projection for entries whose attributes are all case-ignore strings: the
  normalised value is the lower-case value, and so is the normalised RDN.
\<close>

definition ex_pj :: Projection where
  "ex_pj =
     \<lparr>normAttrs = (\<lambda>a. Inr (\<lambda>k. map_option (map (\<lambda>v. NString (ToLower v))) (a k))),
      normRDN = (\<lambda>r. Inr (ToLower r))\<rparr>"

text \<open>The pre-seeded row with id 0 and the suffix entry, at revision 6.\<close>

definition row0 :: DBEntry where
  "row0 =
     \<lparr>ID = 0, UUID = ''00000000-0000-0000-0000-000000000000'', Version = 1, ParentID = 0,
      Path = [], IsContainer = True, RDNNorm = ''dc=0'', RDNOrig = ''dc=0'',
      AttrsOrig = [''dc'' \<mapsto> [''0''], ''objectClass'' \<mapsto> [''dcObject'']]\<rparr>"

definition row1 :: DBEntry where
  "row1 =
     \<lparr>ID = 1, UUID = ''11111111-1111-1111-1111-111111111111'', Version = 6, ParentID = 0,
      Path = [], IsContainer = False, RDNNorm = ''dc=example'', RDNOrig = ''dc=example'',
      AttrsOrig = [''dc'' \<mapsto> [''example''], ''objectClass'' \<mapsto> [''dcObject'']]\<rparr>"

definition ex_db :: DB where
  "ex_db = \<lparr>rows = [row0, row1], seq = 2, notified = []\<rparr>"

text \<open>A cache that holds the suffix entry as it was at revision 5.\<close>

definition ex_cache :: "CacheEntry list" where
  "ex_cache =
     [\<lparr>c_ID = 1, c_Version = 5, c_ParentID = 0, c_Path = [], c_IsContainer = False,
       c_RDNNorm = ''dc=example'', c_RDNOrig = ''dc=example'',
       c_AttrsNorm = [''dc'' \<mapsto> [NString ''example''], ''objectClass'' \<mapsto> [NString ''dcobject'']],
       c_AttrsOrig = [''dc'' \<mapsto> [''example''], ''objectClass'' \<mapsto> [''dcObject'']]\<rparr>]"

definition ex_msg :: "string \<Rightarrow> int \<Rightarrow> NotifyMessage" where
  "ex_msg opn rv =
     \<lparr>Issuer = ''server-2'', m_ID = 1, Op = opn, Rev = rv, Association = False,
      Dependant = [], Sub = False\<rparr>"

section \<open>Resolving a DN through the cache (\<^verbatim>\<open>findEntryIDWithTx\<close>)\<close>

text \<open>
  \<^verbatim>\<open>DN.Equal\<close> for a non-nil receiver and argument, \<^verbatim>\<open>DN.IsSuffix\<close>,
  \<^verbatim>\<open>DN.LevelWithoutSuffix\<close>, \<^verbatim>\<open>DN.IsAnonymous\<close>.
\<close>

definition DN_Equal :: "DN \<Rightarrow> DN \<Rightarrow> bool" where
  "DN_Equal d o' = (length (RDNs d) = length (RDNs o') \<and> DNNormStr d = DNNormStr o')"

definition IsSuffix :: "DN \<Rightarrow> DN \<Rightarrow> bool" where
  "IsSuffix d suffix = DN_Equal d suffix"

definition LevelWithoutSuffix :: "DN \<Rightarrow> DN \<Rightarrow> int" where
  "LevelWithoutSuffix d suffix = int (length (RDNs d)) - int (length (RDNs suffix))"

definition IsAnonymous :: "DN \<Rightarrow> bool" where
  "IsAnonymous d = (length (RDNs d) = 0)"

text \<open>\<^verbatim>\<open>DN.RDNNormStr\<close> reads \<^verbatim>\<open>d.RDNs[0]\<close>, which panics on a DN without RDNs.\<close>

definition RDNNormStr :: "DN \<Rightarrow> error + string" where
  "RDNNormStr d =
     (case RDNs d of [] \<Rightarrow> Inl (Panic ''index out of range'') | r # rs \<Rightarrow> Inr (rdn_NormStr r))"

text \<open>
  \<^verbatim>\<open>DN.ParentDN\<close>: nil (\<open>None\<close>) at a DN with one RDN; on a DN without RDNs the
  slice expression \<^verbatim>\<open>d.RDNs[1:]\<close> panics.
\<close>

definition ParentDN :: "DN \<Rightarrow> error + DN option" where
  "ParentDN d =
     (case RDNs d of
        [] \<Rightarrow> Inl (Panic ''slice bounds out of range'')
      | [r] \<Rightarrow> Inr None
      | r # rs \<Rightarrow> Inr (Some (DN rs)))"

text \<open>
  The first loop of \<^verbatim>\<open>findEntryIDWithTx\<close>: \<open>n\<close> times, take the normalised RDN
  and step to the parent. Calling a method on the nil parent panics.
\<close>

primrec collect_rdnNorms :: "nat \<Rightarrow> DN option \<Rightarrow> error + string list" where
  "collect_rdnNorms 0 d = Inr []"
| "collect_rdnNorms (Suc n) d =
     (case d of
        None \<Rightarrow> Inl (Panic ''nil pointer dereference'')
      | Some dn \<Rightarrow>
          (case RDNNormStr dn of
             Inl e \<Rightarrow> Inl e
           | Inr s \<Rightarrow>
               (case ParentDN dn of
                  Inl e \<Rightarrow> Inl e
                | Inr p \<Rightarrow> map_sum id ((#) s) (collect_rdnNorms n p))))"

definition rdnNorms_of :: "DN \<Rightarrow> DN \<Rightarrow> error + string list" where
  "rdnNorms_of suffix dn =
     (if IsSuffix dn suffix then map_sum id (\<lambda>s. [s]) (RDNNormStr dn)
      else if LevelWithoutSuffix dn suffix + 1 < 0 then Inl (Panic ''makeslice: len out of range'')
      else collect_rdnNorms (nat (LevelWithoutSuffix dn suffix + 1)) (Some dn))"

text \<open>
  The second loop, from the suffix down: the child of \<open>i\<close> with the given
  normalised RDN, or \<^verbatim>\<open>NoSuchObject\<close>. The list is \<^verbatim>\<open>rdnNorms\<close> reversed. The
  per-request memo table \<^verbatim>\<open>DNCache.Atoi\<close> only saves look-ups and is left out.
\<close>

fun find_down :: "CacheEntry list \<Rightarrow> int \<Rightarrow> string list \<Rightarrow> error + int" where
  "find_down cache i [] = Inr i"
| "find_down cache i (r # rs) =
     (case find (\<lambda>e. c_ParentID e = i \<and> c_RDNNorm e = r) cache of
        None \<Rightarrow> Inl NoSuchObject
      | Some e \<Rightarrow> find_down cache (c_ID e) rs)"

definition findEntryID :: "CacheEntry list \<Rightarrow> DN \<Rightarrow> DN \<Rightarrow> error + int" where
  "findEntryID cache suffix dn =
     (case rdnNorms_of suffix dn of
        Inl e \<Rightarrow> Inl e
      | Inr rdnNorms \<Rightarrow> find_down cache 0 (rev rdnNorms))"

text \<open>\<^verbatim>\<open>findAttrsNormByID\<close>: the normalised attributes, or a nil map when the id is not cached.\<close>

definition findAttrsNormByID :: "CacheEntry list \<Rightarrow> int \<Rightarrow> (string \<Rightarrow> NormValue list option)" where
  "findAttrsNormByID cache i =
     (case cache_find cache i of None \<Rightarrow> (\<lambda>k. None) | Some e \<Rightarrow> c_AttrsNorm e)"

text \<open>
  \<^verbatim>\<open>CacheAttrsNorm.ValueStr\<close> and \<^verbatim>\<open>ValueInt64\<close>: the type assertion panics on
  a value of another type.
\<close>

fun strs_of :: "NormValue list \<Rightarrow> string list option" where
  "strs_of [] = Some []"
| "strs_of (NString s # vs) = map_option ((#) s) (strs_of vs)"
| "strs_of (v # vs) = None"

definition ValueStr :: "(string \<Rightarrow> NormValue list option) \<Rightarrow> string \<Rightarrow> error + string list" where
  "ValueStr c name =
     (case strs_of (case_option [] id (c name)) of
        None \<Rightarrow> Inl (Panic ''interface conversion'')
      | Some ss \<Rightarrow> Inr ss)"

definition ValueInt64 :: "(string \<Rightarrow> NormValue list option) \<Rightarrow> string \<Rightarrow> error + int list" where
  "ValueInt64 c name =
     (case ints_of (case_option [] id (c name)) of
        None \<Rightarrow> Inl (Panic ''interface conversion'')
      | Some is \<Rightarrow> Inr is)"

section \<open>Bind (repo package)\<close>

text \<open>
  What \<^verbatim>\<open>Bind\<close> uses and the sources do not contain, as parameters: the policy
  type of the schema package with \<^verbatim>\<open>NewDefaultPPolicy\<close> and
  \<^verbatim>\<open>IsLockoutEnabled\<close>, the classification of an error by the \<^verbatim>\<open>util\<close> package
  (\<^verbatim>\<open>xerrors.As\<close> to an \<^verbatim>\<open>LDAPError\<close>, \<^verbatim>\<open>IsInvalidCredentials\<close>,
  \<^verbatim>\<open>IsAccountLocked\<close>), and \<^verbatim>\<open>time.Parse\<close> with \<^verbatim>\<open>Time.After\<close> over an
  abstract type of times. \<^verbatim>\<open>toDNWithSuffixRDN\<close>, which walks the parent links of
  the cache and reads the request's DN memo table, is a parameter too: it gives the
  DN of a cached id or nil.
\<close>

record ('t, 'p) BindEnv =
  timeParse :: "string \<Rightarrow> string \<Rightarrow> 't option"
  timeAfter :: "'t \<Rightarrow> 't \<Rightarrow> bool"
  timeZero :: 't
  toDNWithSuffixRDN :: "CacheEntry list \<Rightarrow> int \<Rightarrow> DN option"
  NewDefaultPPolicy :: 'p
  mkPPolicy :: "string list \<Rightarrow> string list \<Rightarrow> string list \<Rightarrow> string list \<Rightarrow> 'p"
  IsLockoutEnabled :: "'p option \<Rightarrow> bool"
  isLDAPError :: "error \<Rightarrow> bool"
  IsInvalidCredentials :: "error \<Rightarrow> bool"
  IsAccountLocked :: "error \<Rightarrow> bool"

definition TIMESTAMP_FORMAT :: string where
  "TIMESTAMP_FORMAT = ''20060102150405Z''"

definition TIMESTAMP_NANO_FORMAT :: string where
  "TIMESTAMP_NANO_FORMAT = ''20060102150405.000000Z''"

record ('t, 'p) FetchedCredential =
  fc_ID :: int
  Credential :: "string list"
  MemberOf :: "DN list"
  PPolicy :: "'p option"
  PwdAccountLockedTime :: 't
  LastPwdFailureTime :: "'t option"
  PwdFailureCount :: nat

text \<open>
  The repository as \<^verbatim>\<open>Bind\<close> sees it: the durable store, the cache, and the
  suffix and default policy DN of the registry.
\<close>

record Repo =
  r_db :: DB
  r_cache :: "CacheEntry list"
  SuffixDN :: DN
  DefaultPPolicyDN :: DN

text \<open>\<^verbatim>\<open>FindPPolicyByDN\<close>; \<open>Inr None\<close> is its \<^verbatim>\<open>(nil, nil)\<close>.\<close>

definition is_NoSuchObject :: "error \<Rightarrow> bool" where
  "is_NoSuchObject e = (e = NoSuchObject)"

definition is_Panic :: "error \<Rightarrow> bool" where
  "is_Panic e = (case e of Panic s \<Rightarrow> True | _ \<Rightarrow> False)"

definition FindPPolicyByDN :: "('t, 'p) BindEnv \<Rightarrow> Repo \<Rightarrow> error + 'p option" where
  "FindPPolicyByDN env r =
     (if IsAnonymous (DefaultPPolicyDN r) then Inr (Some (NewDefaultPPolicy env))
      else case findEntryID (r_cache r) (SuffixDN r) (DefaultPPolicyDN r) of
        Inl e \<Rightarrow> if is_NoSuchObject e then Inr (Some (NewDefaultPPolicy env)) else Inl e
      | Inr i \<Rightarrow>
          (case cache_find (r_cache r) i of
             None \<Rightarrow> Inr None
           | Some ce \<Rightarrow>
               (case (ValueStr (c_AttrsNorm ce) ''pwdAttribute'', ValueStr (c_AttrsNorm ce) ''PwdLockout'',
                      ValueStr (c_AttrsNorm ce) ''PwdLockoutDuration'',
                      ValueStr (c_AttrsNorm ce) ''PwdMaxFailure'') of
                  (Inr a, Inr b, Inr c, Inr d) \<Rightarrow> Inr (Some (mkPPolicy env a b c d))
                | _ \<Rightarrow> Inl (Panic ''interface conversion''))))"

text \<open>The loop over \<^verbatim>\<open>pwdFailureTime\<close>: the latest failure time, or the parse error.\<close>

fun lastFailure :: "('t, 'p) BindEnv \<Rightarrow> 't option \<Rightarrow> string list \<Rightarrow> error + 't option" where
  "lastFailure env lst [] = Inr lst"
| "lastFailure env lst (v # vs) =
     (case timeParse env TIMESTAMP_NANO_FORMAT v of
        None \<Rightarrow> Inl (OtherError ''Failed to parse pwdFailureTime'')
      | Some t \<Rightarrow>
          (case lst of
             None \<Rightarrow> lastFailure env (Some t) vs
           | Some l \<Rightarrow> lastFailure env (if timeAfter env t l then Some t else Some l) vs))"

text \<open>
  The part of \<^verbatim>\<open>Bind\<close> between the two look-ups and the callback: building the
  \<^verbatim>\<open>FetchedCredential\<close>.
\<close>

definition fetchCredential ::
  "('t, 'p) BindEnv \<Rightarrow> Repo \<Rightarrow> int \<Rightarrow> error + ('t, 'p) FetchedCredential" where
  "fetchCredential env r i =
     (let jsonEntry = findAttrsNormByID (r_cache r) i in
      case (if length (case_option [] id (jsonEntry ''pwdAccountLockedTime'')) > 0
            then (case ValueStr jsonEntry ''pwdAccountLockedTime'' of
                    Inl e \<Rightarrow> Inl e
                  | Inr [] \<Rightarrow> Inl (Panic ''index out of range'')
                  | Inr (s # ss) \<Rightarrow>
                      (case timeParse env TIMESTAMP_FORMAT s of
                         None \<Rightarrow> Inl (OtherError ''Failed to parse pwdAccountLockedTime'')
                       | Some t \<Rightarrow> Inr t))
            else Inr (timeZero env)) of
        Inl e \<Rightarrow> Inl e
      | Inr locked \<Rightarrow>
          (case (if length (case_option [] id (jsonEntry ''pwdFailureTime'')) > 0
                 then (case ValueStr jsonEntry ''pwdFailureTime'' of
                         Inl e \<Rightarrow> Inl e
                       | Inr vs \<Rightarrow> lastFailure env None vs)
                 else Inr None) of
             Inl e \<Rightarrow> Inl e
           | Inr lastf \<Rightarrow>
               (case FindPPolicyByDN env r of
                  Inl e \<Rightarrow> if is_Panic e then Inl e else Inl (OtherError ''Failed to fetch ppolicy'')
                | Inr ppolicy \<Rightarrow>
                    (case ValueInt64 jsonEntry ''memberOf'' of
                       Inl e \<Rightarrow> Inl e
                     | Inr ms \<Rightarrow>
                         (case ValueStr jsonEntry ''userPassword'' of
                            Inl e \<Rightarrow> Inl e
                          | Inr cred \<Rightarrow>
                              Inr \<lparr>fc_ID = i, Credential = cred,
                                   MemberOf = List.map_filter (toDNWithSuffixRDN env (r_cache r)) ms,
                                   PPolicy = ppolicy, PwdAccountLockedTime = locked,
                                   LastPwdFailureTime = lastf,
                                   PwdFailureCount =
                                     length (case_option [] id (jsonEntry ''pwdFailureTime''))\<rparr>)))))"

text \<open>
  \<^verbatim>\<open>Bind\<close>: the returned error (\<open>None\<close> for nil) and the repository afterwards.
  An error of \<^verbatim>\<open>findEntryID\<close> becomes \<^verbatim>\<open>InvalidCredentials\<close> (a panic is not
  an error value and passes through). After a failed callback whose error is not an
  \<^verbatim>\<open>LDAPError\<close> classified as invalid credentials the source returns the variable
  \<^verbatim>\<open>err\<close>, which is nil at that point. The statements that would record the
  outcome in the store are commented out in the source.
\<close>

definition Bind ::
  "('t, 'p) BindEnv \<Rightarrow> Repo \<Rightarrow> DN \<Rightarrow> (('t, 'p) FetchedCredential \<Rightarrow> error option) \<Rightarrow>
   error option \<times> Repo" where
  "Bind env r dn callback =
     (case findEntryID (r_cache r) (SuffixDN r) dn of
        Inl e \<Rightarrow> if is_Panic e then (Some e, r) else (Some InvalidCredentials, r)
      | Inr i \<Rightarrow>
          (case fetchCredential env r i of
             Inl e \<Rightarrow> (Some e, r)
           | Inr fc \<Rightarrow>
               (case callback fc of
                  Some callbackErr \<Rightarrow>
                    if \<not> isLDAPError env callbackErr \<or> \<not> IsInvalidCredentials env callbackErr
                    then (None, r)
                    else if IsAccountLocked env callbackErr then (Some callbackErr, r)
                    else if IsLockoutEnabled env (PPolicy fc) then (Some callbackErr, r)
                    else (Some callbackErr, r)
                | None \<Rightarrow> (None, r))))"

subsection \<open>A repository and a bind request for concrete evaluation\<close>

definition atv :: "string \<Rightarrow> string \<Rightarrow> AttributeTypeAndValue" where
  "atv t v =
     \<lparr>TypeOrig = t, TypeNorm = ToLower t, ValueOrig = v, ValueOrigEncoded = v,
      ValueNorm = ToLower v\<rparr>"

definition dn_suffix :: DN where
  "dn_suffix = DN [RelativeDN [atv ''dc'' ''example'']]"

definition dn_nobody :: DN where
  "dn_nobody = DN [RelativeDN [atv ''cn'' ''nobody''], RelativeDN [atv ''dc'' ''example'']]"

definition ex_repo :: Repo where
  "ex_repo = \<lparr>r_db = ex_db, r_cache = ex_cache, SuffixDN = dn_suffix, DefaultPPolicyDN = DN []\<rparr>"

definition ex_env :: "(nat, unit) BindEnv" where
  "ex_env =
     \<lparr>timeParse = (\<lambda>layout v. None), timeAfter = (\<lambda>a b. b < a), timeZero = 0,
      toDNWithSuffixRDN = (\<lambda>c i. None), NewDefaultPPolicy = (),
      mkPPolicy = (\<lambda>a b c d. ()), IsLockoutEnabled = (\<lambda>p. False),
      isLDAPError = (\<lambda>e. e = InvalidCredentials),
      IsInvalidCredentials = (\<lambda>e. e = InvalidCredentials),
      IsAccountLocked = (\<lambda>e. False)\<rparr>"

section \<open>Insert under a parent (\<^verbatim>\<open>insertInternal\<close>)\<close>

text \<open>
  What \<^verbatim>\<open>insertInternal\<close> reads from its changelog: the parent of the target DN
  (nil for a DN with one RDN), the normalised and the encoded original RDN, and the
  attributes given by \<^verbatim>\<open>ToNewAttrsOrig\<close>.
\<close>

record InsertInput =
  in_ParentDN :: "DN option"
  in_RDNNorm :: string
  in_RDNOrig :: string
  in_attrsOrig :: "string \<Rightarrow> string list option"

text \<open>
  The surroundings of the repository: the server id of its configuration, the
  registry's \<^verbatim>\<open>NormalizeDN\<close> and suffix, and PostgreSQL's conversion of a text to
  the \<^verbatim>\<open>uuid\<close> type (its canonical text, or \<open>None\<close> for an invalid one).
\<close>

record RepoEnv =
  ServerID :: string
  NormalizeDN :: "string \<Rightarrow> error + DN"
  env_SuffixDN :: DN
  pg_uuid :: "string \<Rightarrow> string option"

text \<open>\<^verbatim>\<open>dnStrArrayToIDStrArray\<close>: the ids as decimal strings, or the error and its index.\<close>

fun dnStrArrayToIDStrArray ::
  "RepoEnv \<Rightarrow> CacheEntry list \<Rightarrow> nat \<Rightarrow> string list \<Rightarrow> (error \<times> nat) + string list" where
  "dnStrArrayToIDStrArray env cache i [] = Inr []"
| "dnStrArrayToIDStrArray env cache i (v # vs) =
     (case NormalizeDN env v of
        Inl e \<Rightarrow> Inl (e, i)
      | Inr d \<Rightarrow>
          (case findEntryID cache (env_SuffixDN env) d of
             Inl e \<Rightarrow> Inl (e, i)
           | Inr n \<Rightarrow>
               (case dnStrArrayToIDStrArray env cache (Suc i) vs of
                  Inl x \<Rightarrow> Inl x
                | Inr ids \<Rightarrow> Inr (FormatInt n # ids))))"

text \<open>\<^verbatim>\<open>SetString.AddAll\<close>: insertion order, no duplicates.\<close>

fun AddAll :: "string list \<Rightarrow> string list \<Rightarrow> string list" where
  "AddAll s [] = s"
| "AddAll s (v # vs) = AddAll (if v \<in> set s then s else s @ [v]) vs"

text \<open>
  The closure \<^verbatim>\<open>convAssoc\<close>: the attribute's DNs are replaced by ids, which are
  added to the set of targets.
\<close>

definition convAssoc ::
  "RepoEnv \<Rightarrow> CacheEntry list \<Rightarrow> string \<Rightarrow>
   (string \<Rightarrow> string list option) \<times> string list \<Rightarrow>
   error + ((string \<Rightarrow> string list option) \<times> string list)" where
  "convAssoc env cache name st =
     (case fst st name of
        None \<Rightarrow> Inr st
      | Some m \<Rightarrow>
          (case dnStrArrayToIDStrArray env cache 0 m of
             Inl (e, errIndex) \<Rightarrow>
               if is_NoSuchObject e then Inl (InvalidPerSyntax name errIndex) else Inl e
           | Inr mids \<Rightarrow> Inr ((fst st)(name \<mapsto> mids), AddAll (snd st) mids)))"

definition convAssocs ::
  "RepoEnv \<Rightarrow> CacheEntry list \<Rightarrow> (string \<Rightarrow> string list option) \<Rightarrow>
   error + ((string \<Rightarrow> string list option) \<times> string list)" where
  "convAssocs env cache attrsOrig =
     (case convAssoc env cache ''member'' (attrsOrig, []) of
        Inl e \<Rightarrow> Inl e
      | Inr st \<Rightarrow> convAssoc env cache ''uniqueMember'' st)"

text \<open>
  The prepared statement \<^verbatim>\<open>insertEntry\<close>, read with \<^verbatim>\<open>Get\<close>: the id comes from
  the sequence; an invalid uuid text (22P02), a broken unique key (23505) and a
  missing parent (23503) are errors.
\<close>

definition insertEntry ::
  "RepoEnv \<Rightarrow> DB \<Rightarrow> string \<Rightarrow> int \<Rightarrow> string \<Rightarrow> string \<Rightarrow> (string \<Rightarrow> string list option) \<Rightarrow>
   error + (int \<times> DB)" where
  "insertEntry env db uuid pid rdn_norm rdn_orig attrs =
     (case pg_uuid env uuid of
        None \<Rightarrow> Inl (PgError ''22P02'')
      | Some u \<Rightarrow>
          let new = \<lparr>ID = seq db, UUID = u, Version = 1, ParentID = pid, Path = [],
                     IsContainer = False, RDNNorm = rdn_norm, RDNOrig = rdn_orig,
                     AttrsOrig = attrs\<rparr>;
              rs = rows db @ [new]
          in if \<not> list_ex (\<lambda>e. ID e = pid) rs then Inl (PgError ''23503'')
             else if \<not> constraints_ok rs then Inl (PgError ''23505'')
             else Inr (seq db, db\<lparr>rows := rs, seq := seq db + 1\<rparr>))"

definition isDuplicateKeyError :: "error \<Rightarrow> bool" where
  "isDuplicateKeyError e = (e = PgError ''23505'')"

definition isForeignKeyError :: "error \<Rightarrow> bool" where
  "isForeignKeyError e = (e = PgError ''23503'')"

text \<open>
  \<^verbatim>\<open>insertInternal\<close>: the store afterwards and the message, or the error (the caller
  rolls the transaction back). \<open>Inr (db, None)\<close> is the return of a nil message with a
  nil error, which happens where the source returns \<^verbatim>\<open>reportError(err)\<close> with a
  nil \<^verbatim>\<open>err\<close>.
\<close>

definition insertInternal ::
  "RepoEnv \<Rightarrow> CacheEntry list \<Rightarrow> DB \<Rightarrow> InsertInput \<Rightarrow> error + (DB \<times> NotifyMessage option)" where
  "insertInternal env cache db inp =
     (case in_ParentDN inp of
        None \<Rightarrow> Inl (Panic ''nil pointer dereference'')
      | Some parentDN \<Rightarrow>
     (case findEntryID cache (env_SuffixDN env) parentDN of
        Inl e \<Rightarrow> Inl e
      | Inr pid \<Rightarrow>
     (case db_get db pid of
        Inl e \<Rightarrow> Inl e
      | Inr p \<Rightarrow>
     (case (if \<not> IsContainer p
            then (case updateContainer db (ID p) (Version p) (parent_path db p @ [ID p]) True of
                    Inl e \<Rightarrow> Inl e
                  | Inr (updated, db1) \<Rightarrow> Inr (updated = 1, db1, [ID p]))
            else Inr (True, db, [])) of
        Inl e \<Rightarrow> Inl e
      | Inr (ok, db1, dep) \<Rightarrow>
          if \<not> ok then Inr (db1, None)
          else
     (case convAssocs env cache (in_attrsOrig inp) of
        Inl e \<Rightarrow> Inl e
      | Inr (attrsOrig, mids) \<Rightarrow>
     (case case_option [] id (attrsOrig ''entryUUID'') of
        [] \<Rightarrow> Inl (Panic ''index out of range'')
      | uuid # us \<Rightarrow>
     (case insertEntry env db1 uuid pid (in_RDNNorm inp) (in_RDNOrig inp) attrsOrig of
        Inl e \<Rightarrow>
          if isForeignKeyError e then Inl (RetryError ''23503'')
          else if isDuplicateKeyError e then Inl AlreadyExists
          else Inl e
      | Inr (newID, db2) \<Rightarrow>
     (case addMemberOf db2 mids newID of
        Inl e \<Rightarrow> Inl e
      | Inr db3 \<Rightarrow>
          let m = \<lparr>Issuer = ServerID env, m_ID = newID, Op = NotifyAdd, Rev = 1,
                   Association = (length mids > 0), Dependant = dep, Sub = False\<rparr>
          in Inr (notify db3 m, Some m)))))))))"

subsection \<open>Insert requests for concrete evaluation\<close>

text \<open>
  An environment whose registry knows the DN \<^verbatim>\<open>dc=example\<close>, and two entries to
  insert under it: \<^verbatim>\<open>cn=alice\<close>, and a group \<^verbatim>\<open>cn=grp\<close> that names its own
  parent as a member.
\<close>

definition ex_renv :: RepoEnv where
  "ex_renv =
     \<lparr>ServerID = ''server-1'',
      NormalizeDN = (\<lambda>s. if s = ''dc=example'' then Inr dn_suffix else Inl InvalidDNSyntax),
      env_SuffixDN = dn_suffix,
      pg_uuid = (\<lambda>s. Some s)\<rparr>"

definition in_alice :: InsertInput where
  "in_alice =
     \<lparr>in_ParentDN = Some dn_suffix, in_RDNNorm = ''cn=alice'', in_RDNOrig = ''cn=alice'',
      in_attrsOrig = [''cn'' \<mapsto> [''alice''], ''objectClass'' \<mapsto> [''person''], ''sn'' \<mapsto> [''a''],
                      ''entryUUID'' \<mapsto> [''22222222-2222-2222-2222-222222222222'']]\<rparr>"

definition in_grp :: InsertInput where
  "in_grp =
     \<lparr>in_ParentDN = Some dn_suffix, in_RDNNorm = ''cn=grp'', in_RDNOrig = ''cn=grp'',
      in_attrsOrig = [''cn'' \<mapsto> [''grp''], ''objectClass'' \<mapsto> [''groupOfNames''],
                      ''member'' \<mapsto> [''dc=example''],
                      ''entryUUID'' \<mapsto> [''33333333-3333-3333-3333-333333333333'']]\<rparr>"

text \<open>The revision stored for an id, if the table has the row.\<close>

definition rev_of :: "DB \<Rightarrow> int \<Rightarrow> int option" where
  "rev_of db i = map_option Version (find (\<lambda>e. ID e = i) (rows db))"

section \<open>Update and the modify handler's retry loop\<close>

text \<open>
  What \<^verbatim>\<open>internalUpdate\<close> reads from its changelog: the encoded DN of the
  requester, the timestamp, the operations of \<^verbatim>\<open>ToDiff\<close> (a map, given as the
  list of its entries) and the membership delta of \<^verbatim>\<open>ToMemberOfDiff\<close>.
\<close>

record UpdateInput =
  up_modifiersName :: string
  up_timestamp :: string
  up_ops :: "(string \<times> ModOperation) list"
  up_memberOfDiff :: "string list \<times> string list"

text \<open>
  The value that the JSON expression built for one operation gives the attribute:
  \<^verbatim>\<open>||\<close> appends to the array, \<^verbatim>\<open>- text[]\<close> removes every listed string, and a
  missing attribute counts as the empty array.
\<close>

definition apply_op :: "string list option \<Rightarrow> ModOperation \<Rightarrow> string list" where
  "apply_op old v =
     (if IsReplace v then op_Replace v
      else if IsAdd v \<and> \<not> IsDelete v then case_option [] id old @ op_Add v
      else if \<not> IsAdd v \<and> IsDelete v
      then filter (\<lambda>x. x \<notin> set (op_Delete v)) (case_option [] id old)
      else if IsAdd v \<and> IsDelete v
      then filter (\<lambda>x. x \<notin> set (op_Delete v)) (case_option [] id old @ op_Add v)
      else [])"

text \<open>
  \<^verbatim>\<open>attrs_orig || JSONB_BUILD_OBJECT(k1, e1, k2, e2, ...)\<close>: every expression reads
  the stored value, and of two equal keys the later one wins.
\<close>

fun build_object ::
  "(string \<Rightarrow> string list option) \<Rightarrow> (string \<times> string list) list \<Rightarrow>
   (string \<Rightarrow> string list option)" where
  "build_object attrs [] = attrs"
| "build_object attrs ((k, v) # kvs) = build_object (attrs(k \<mapsto> v)) kvs"

text \<open>
  The method \<^verbatim>\<open>deleteMemberOf\<close>: one \<^verbatim>\<open>UPDATE ... WHERE id IN (:id)\<close>; a number
  of updated rows other than the number of ids is a \<^verbatim>\<open>RetryError\<close>.
\<close>

definition deleteMemberOf :: "DB \<Rightarrow> string list \<Rightarrow> int \<Rightarrow> error + DB" where
  "deleteMemberOf db ids i =
     (if length ids = 0 then Inr db
      else if \<not> list_all (\<lambda>s. ParseInt s \<noteq> None) ids then Inl (PgError ''22P02'')
      else
        (case sql_update (\<lambda>e. Some (ID e) \<in> set (map ParseInt ids))
                (\<lambda>e. map_option
                        (\<lambda>e'. e'\<lparr>AttrsOrig := (AttrsOrig e')(''memberOf'' \<mapsto>
                                  filter (\<lambda>x. x \<noteq> FormatInt i)
                                    (case_option [] id (AttrsOrig e' ''memberOf'')))\<rparr>)
                        (bump_rev e)) db of
           Inl e \<Rightarrow> Inl e
         | Inr (n, db') \<Rightarrow>
             if n \<noteq> length ids then Inl (RetryError ''inconsistency while removing memberOf'')
             else Inr db'))"

text \<open>
  \<^verbatim>\<open>internalUpdate\<close> with the entry's id and the pre-image revision \<open>rv\<close>: the
  store afterwards and the message, or the error. With no operation it returns a nil
  message and a nil error. The \<^verbatim>\<open>UPDATE\<close> carries
  \<^verbatim>\<open>WHERE id = :id AND rev = :rev\<close>; when it does not change exactly one row the
  source returns \<^verbatim>\<open>errors.New("Unexpected update result")\<close>.
\<close>

definition internalUpdate ::
  "RepoEnv \<Rightarrow> DB \<Rightarrow> int \<Rightarrow> int \<Rightarrow> UpdateInput \<Rightarrow> error + (DB \<times> NotifyMessage option)" where
  "internalUpdate env db i rv inp =
     (if length (up_ops inp) = 0 then Inr (db, None)
      else
        (case sql_update (\<lambda>e. ID e = i \<and> Version e = rv)
                (\<lambda>e. map_option
                        (\<lambda>e'. e'\<lparr>AttrsOrig :=
                                  build_object (AttrsOrig e)
                                    ([(''modifiersName'', [up_modifiersName inp]),
                                      (''modifyTimestamp'', [up_timestamp inp])]
                                     @ map (\<lambda>(k, v). (k, apply_op (AttrsOrig e k) v))
                                           (up_ops inp))\<rparr>)
                        (bump_rev e)) db of
           Inl e \<Rightarrow> Inl e
         | Inr (updated, db1) \<Rightarrow>
             if updated \<noteq> 1 then Inl (OtherError ''Unexpected update result'')
             else
               (case (if length (fst (up_memberOfDiff inp)) > 0
                         \<or> length (snd (up_memberOfDiff inp)) > 0
                      then (case addMemberOf db1 (fst (up_memberOfDiff inp)) i of
                              Inl e \<Rightarrow> Inl e
                            | Inr db2 \<Rightarrow>
                                map_sum id (Pair True)
                                  (deleteMemberOf db2 (snd (up_memberOfDiff inp)) i))
                      else Inr (False, db1)) of
                  Inl e \<Rightarrow> Inl e
                | Inr (associationChanged, db3) \<Rightarrow>
                    let m = \<lparr>Issuer = ServerID env, m_ID = i, Op = NotifyMod, Rev = rv + 1,
                             Association = associationChanged, Dependant = [], Sub = False\<rparr>
                    in Inr (notify db3 m, Some m))))"


text \<open>\<^verbatim>\<open>xerrors.As(err, &retryError)\<close>.\<close>

definition isRetryError :: "error \<Rightarrow> bool" where
  "isRetryError e = (case e of RetryError s \<Rightarrow> True | _ \<Rightarrow> False)"

text \<open>
  The loop of \<^verbatim>\<open>handleModify\<close> around \<^verbatim>\<open>Update\<close> (the label \<^verbatim>\<open>Retry\<close> and
  the \<^verbatim>\<open>goto\<close>): \<open>update\<close> is one call of the operation on the store, \<open>i\<close> the
  retry counter, \<open>maxRetry\<close> the constant of the server package (not in the sources).
  It gives the error answered to the client (\<open>None\<close> for success), the number of
  calls made and the store.
\<close>

function handleModify_loop ::
  "int \<Rightarrow> ('s \<Rightarrow> error option \<times> 's) \<Rightarrow> int \<Rightarrow> nat \<Rightarrow> 's \<Rightarrow> error option \<times> nat \<times> 's" where
  "handleModify_loop maxRetry update i calls st =
     (case update st of
        (None, st') \<Rightarrow> (None, Suc calls, st')
      | (Some err, st') \<Rightarrow>
          if isRetryError err \<and> i < maxRetry
          then handleModify_loop maxRetry update (i + 1) (Suc calls) st'
          else (Some err, Suc calls, st'))"
  by pat_completeness auto
termination
  by (relation "measure (\<lambda>(maxRetry, update, i, calls, st). nat (maxRetry - i))") auto

declare handleModify_loop.simps [simp del]

subsection \<open>An update for concrete evaluation\<close>


section \<open>UpdateDN: rename and move\<close>

text \<open>
  What \<^verbatim>\<open>internalUpdateDN\<close> reads from its changelog: the old and the new DN, the
  encoded DN of the requester, the timestamp and the operations of \<^verbatim>\<open>ToDiff\<close>.
\<close>

record UpdateDNInput =
  ud_DN :: DN
  ud_NewDN :: DN
  ud_modifiersName :: string
  ud_timestamp :: string
  ud_ops :: "(string \<times> ModOperation) list"

text \<open>
  \<^verbatim>\<open>DN.Equal\<close> on pointers that may be nil: a nil receiver equals only nil, and a
  nil argument of a non-nil receiver is dereferenced.
\<close>

definition Equal_ptr :: "DN option \<Rightarrow> DN option \<Rightarrow> error + bool" where
  "Equal_ptr d o' =
     (case d of
        None \<Rightarrow> Inr (o' = None)
      | Some dn \<Rightarrow>
          (case o' of
             None \<Rightarrow> Inl (Panic ''nil pointer dereference'')
           | Some on \<Rightarrow> Inr (DN_Equal dn on)))"

text \<open>
  \<^verbatim>\<open>findEntryID\<close> on a pointer: with nil, \<^verbatim>\<open>IsSuffix\<close> is false (the suffix is
  not nil) and \<^verbatim>\<open>LevelWithoutSuffix\<close> dereferences it.
\<close>

definition findEntryID_ptr :: "CacheEntry list \<Rightarrow> DN \<Rightarrow> DN option \<Rightarrow> error + int" where
  "findEntryID_ptr cache suffix d =
     (case d of
        None \<Rightarrow> Inl (Panic ''nil pointer dereference'')
      | Some dn \<Rightarrow> findEntryID cache suffix dn)"

definition RDNOrigEncodedStr :: "DN \<Rightarrow> error + string" where
  "RDNOrigEncodedStr d =
     (case RDNs d of [] \<Rightarrow> Inl (Panic ''index out of range'') | r # rs \<Rightarrow> Inr (OrigEncodedStr r))"

text \<open>The local struct \<^verbatim>\<open>dbEntry\<close> of the move block.\<close>

record dbEntry =
  d_ID :: int
  d_Rev :: int
  d_Path :: "int list"
  d_IsContainer :: bool

definition to_dbEntry :: "DBEntry \<Rightarrow> dbEntry" where
  "to_dbEntry e = \<lparr>d_ID = ID e, d_Rev = Version e, d_Path = Path e, d_IsContainer = IsContainer e\<rparr>"

text \<open>
  \<^verbatim>\<open>lockTreeByIDForMove\<close>: the rows with the given id or whose path contains the
  moved entry's id.
\<close>

definition lockTreeByIDForMove :: "DB \<Rightarrow> int \<Rightarrow> int \<Rightarrow> dbEntry list" where
  "lockTreeByIDForMove db oldPID i =
     map to_dbEntry (filter (\<lambda>e. ID e = oldPID \<or> i \<in> set (Path e)) (rows db))"

text \<open>
  The scan of these rows into the old parent, the entry and the old subtree, from
  their initial values.
\<close>

fun scan_tree ::
  "int \<Rightarrow> int \<Rightarrow> dbEntry list \<Rightarrow> dbEntry \<times> dbEntry \<times> dbEntry list \<Rightarrow>
   dbEntry \<times> dbEntry \<times> dbEntry list" where
  "scan_tree oldPID i [] acc = acc"
| "scan_tree oldPID i (op # ops) (oldParent, entry, oldSubTree) =
     scan_tree oldPID i ops
       (if d_ID op = oldPID then (op, entry, oldSubTree)
        else if d_ID op = i then (oldParent, op, oldSubTree)
        else (oldParent, entry, oldSubTree @ [op]))"

text \<open>The first index of \<open>x\<close> in a path, 0 when it is not there.\<close>

fun fromIndex :: "int list \<Rightarrow> int \<Rightarrow> nat" where
  "fromIndex [] x = 0"
| "fromIndex (v # vs) x = (if v = x then 0 else if x \<in> set vs then Suc (fromIndex vs x) else 0)"

text \<open>The prepared statements \<^verbatim>\<open>updatePath\<close>, \<^verbatim>\<open>updateParent\<close> and \<^verbatim>\<open>updateParentWithPath\<close>.\<close>

definition updatePath :: "DB \<Rightarrow> int \<Rightarrow> int \<Rightarrow> int list \<Rightarrow> error + (nat \<times> DB)" where
  "updatePath db i rv new_path =
     sql_update (\<lambda>e. ID e = i \<and> Version e = rv)
       (\<lambda>e. map_option (\<lambda>e'. e'\<lparr>Path := new_path\<rparr>) (bump_rev e)) db"

definition updateParent :: "DB \<Rightarrow> int \<Rightarrow> int \<Rightarrow> int \<Rightarrow> error + (nat \<times> DB)" where
  "updateParent db i rv new_parent_id =
     (if new_parent_id \<notin> set (map ID (rows db)) then Inl (PgError ''23503'')
      else sql_update (\<lambda>e. ID e = i \<and> Version e = rv)
             (\<lambda>e. Some (e\<lparr>ParentID := new_parent_id\<rparr>)) db)"

definition updateParentWithPath ::
  "DB \<Rightarrow> int \<Rightarrow> int \<Rightarrow> int \<Rightarrow> int list \<Rightarrow> error + (nat \<times> DB)" where
  "updateParentWithPath db i rv new_parent_id new_path =
     (if new_parent_id \<notin> set (map ID (rows db)) then Inl (PgError ''23503'')
      else sql_update (\<lambda>e. ID e = i \<and> Version e = rv)
             (\<lambda>e. Some (e\<lparr>ParentID := new_parent_id, Path := new_path\<rparr>)) db)"

text \<open>\<^verbatim>\<open>findChildByParentID\<close>: is there a row with this parent?\<close>

definition findChildByParentID :: "DB \<Rightarrow> int \<Rightarrow> bool" where
  "findChildByParentID db pid = list_ex (\<lambda>e. ParentID e = pid) (rows db)"

text \<open>
  Step 5, the loop over the old subtree: each sub-container gets the new parent's path
  followed by its own path from the moved entry on. \<open>n\<close> is \<^verbatim>\<open>len(oldSubTree)\<close>,
  with which the source compares the row count of every single \<^verbatim>\<open>UPDATE\<close>; on a
  difference it returns \<^verbatim>\<open>reportError(err)\<close> with a nil \<^verbatim>\<open>err\<close>, which is the
  result \<open>False\<close> here.
\<close>

fun updateSubTreePaths ::
  "DB \<Rightarrow> nat \<Rightarrow> int list \<Rightarrow> int \<Rightarrow> dbEntry list \<Rightarrow> error + (bool \<times> DB)" where
  "updateSubTreePaths db n newParentPath entryID [] = Inr (True, db)"
| "updateSubTreePaths db n newParentPath entryID (v # vs) =
     (case updatePath db (d_ID v) (d_Rev v)
             (newParentPath @ drop (fromIndex (d_Path v) entryID) (d_Path v)) of
        Inl e \<Rightarrow> Inl e
      | Inr (updated, db') \<Rightarrow>
          if updated \<noteq> n then Inr (False, db')
          else updateSubTreePaths db' n newParentPath entryID vs)"

text \<open>
  The move block (steps 1 to 8). It gives the error, or the store with \<open>None\<close> where
  the source returns a nil message and a nil error, or the store with the dependants
  and the flag \<^verbatim>\<open>updateSubTree\<close>.
\<close>

definition moveEntry ::
  "CacheEntry list \<Rightarrow> DN \<Rightarrow> DB \<Rightarrow> int \<Rightarrow> int \<Rightarrow> DN option \<Rightarrow> DN option \<Rightarrow>
   error + (DB \<times> (int list \<times> bool) option)" where
  "moveEntry cache suffix db i rv oldParentDN newParentDN =
     (case findEntryID_ptr cache suffix oldParentDN of
        Inl e \<Rightarrow> Inl e
      | Inr oldPID \<Rightarrow>
     (case scan_tree oldPID i (lockTreeByIDForMove db oldPID i)
             (\<lparr>d_ID = 0, d_Rev = 0, d_Path = [], d_IsContainer = False\<rparr>,
              \<lparr>d_ID = i, d_Rev = rv, d_Path = [], d_IsContainer = False\<rparr>, []) of
        (oldParent, entry, oldSubTree) \<Rightarrow>
     (case findEntryID_ptr cache suffix newParentDN of
        Inl e \<Rightarrow> Inl e
      | Inr newPID \<Rightarrow>
     (case db_get db newPID of
        Inl e \<Rightarrow> Inl e
      | Inr newParent \<Rightarrow>
     (case updateSubTreePaths db (length oldSubTree) (Path newParent) (d_ID entry) oldSubTree of
        Inl e \<Rightarrow> Inl e
      | Inr (ok5, db5) \<Rightarrow>
          if \<not> ok5 then Inr (db5, None)
          else
     (case (if \<not> IsContainer newParent
            then (case updateContainer db5 (ID newParent) (Version newParent)
                         (parent_path db newParent @ [ID newParent]) True of
                    Inl e \<Rightarrow> Inl e
                  | Inr (updated, db6) \<Rightarrow> Inr (updated = 1, db6, [ID newParent]))
            else Inr (True, db5, [])) of
        Inl e \<Rightarrow> Inl e
      | Inr (ok6, db6, dep6) \<Rightarrow>
          if \<not> ok6 then Inr (db6, None)
          else
     (case (if d_IsContainer entry
            then updateParentWithPath db6 (d_ID entry) (d_Rev entry) (ID newParent)
                   (parent_path db newParent @ [ID newParent, d_ID entry])
            else updateParent db6 (d_ID entry) (d_Rev entry) (ID newParent)) of
        Inl e \<Rightarrow> Inl e
      | Inr (updated7, db7) \<Rightarrow>
          if updated7 \<noteq> 1 then Inr (db7, None)
          else if findChildByParentID db7 (d_ID oldParent)
          then Inr (db7, Some (dep6, length oldSubTree > 0))
          else
     (case updateContainer db7 (d_ID oldParent) (d_Rev oldParent) [] False of
        Inl e \<Rightarrow> Inl e
      | Inr (updated8, db8) \<Rightarrow>
          if updated8 \<noteq> 1 then Inr (db8, None)
          else Inr (db8, Some (dep6 @ [d_ID oldParent], length oldSubTree > 0))))))))))"

text \<open>
  Step 9, the \<^verbatim>\<open>UPDATE\<close> of the entry itself: here the two stamps come after the
  operations in \<^verbatim>\<open>JSONB_BUILD_OBJECT\<close>.
\<close>

definition updateRDN ::
  "DB \<Rightarrow> int \<Rightarrow> int \<Rightarrow> string \<Rightarrow> string \<Rightarrow> UpdateDNInput \<Rightarrow> error + (nat \<times> DB)" where
  "updateRDN db i rv rdn_norm rdn_orig inp =
     sql_update (\<lambda>e. ID e = i \<and> Version e = rv)
       (\<lambda>e. map_option
               (\<lambda>e'. e'\<lparr>RDNNorm := rdn_norm, RDNOrig := rdn_orig,
                         AttrsOrig :=
                           build_object (AttrsOrig e)
                             (map (\<lambda>(k, v). (k, apply_op (AttrsOrig e k) v)) (ud_ops inp)
                              @ [(''modifiersName'', [ud_modifiersName inp]),
                                 (''modifyTimestamp'', [ud_timestamp inp])])\<rparr>)
               (bump_rev e)) db"

text \<open>
  \<^verbatim>\<open>internalUpdateDN\<close> with the entry's id and the pre-image revision: the store
  afterwards and the message (\<open>None\<close> for a nil message with a nil error), or the error.
\<close>

definition internalUpdateDN ::
  "RepoEnv \<Rightarrow> CacheEntry list \<Rightarrow> DB \<Rightarrow> int \<Rightarrow> int \<Rightarrow> UpdateDNInput \<Rightarrow>
   error + (DB \<times> NotifyMessage option)" where
  "internalUpdateDN env cache db i rv inp =
     (case ParentDN (ud_DN inp) of
        Inl e \<Rightarrow> Inl e
      | Inr oldParentDN \<Rightarrow>
     (case ParentDN (ud_NewDN inp) of
        Inl e \<Rightarrow> Inl e
      | Inr newParentDN \<Rightarrow>
     (case Equal_ptr oldParentDN newParentDN of
        Inl e \<Rightarrow> Inl e
      | Inr same \<Rightarrow>
     (case (if \<not> same
            then moveEntry cache (env_SuffixDN env) db i rv oldParentDN newParentDN
            else Inr (db, Some ([], False))) of
        Inl e \<Rightarrow> Inl e
      | Inr (db8, None) \<Rightarrow> Inr (db8, None)
      | Inr (db8, Some (dependant, updateSubTree)) \<Rightarrow>
     (case RDNNormStr (ud_NewDN inp) of
        Inl e \<Rightarrow> Inl e
      | Inr rdn_norm \<Rightarrow>
     (case RDNOrigEncodedStr (ud_NewDN inp) of
        Inl e \<Rightarrow> Inl e
      | Inr rdn_orig \<Rightarrow>
     (case updateRDN db8 i rv rdn_norm rdn_orig inp of
        Inl e \<Rightarrow> Inl e
      | Inr (updated, db9) \<Rightarrow>
          if updated \<noteq> 1 then Inl (OtherError ''Unexpected update result'')
          else
            let m = \<lparr>Issuer = ServerID env, m_ID = i, Op = NotifyMod, Rev = rv + 1,
                     Association = False, Dependant = dependant, Sub = updateSubTree\<rparr>
            in Inr (notify db9 m, Some m))))))))"

subsection \<open>A small tree for concrete evaluation\<close>

text \<open>
  Under the suffix \<^verbatim>\<open>dc=example\<close> (id 1): the container \<^verbatim>\<open>ou=people\<close> (id 2) with
  the sub-container \<^verbatim>\<open>ou=staff\<close> (id 3) and the leaf \<^verbatim>\<open>cn=alice\<close> (id 5);
  \<^verbatim>\<open>cn=bob\<close> (id 6) under \<^verbatim>\<open>ou=staff\<close>; and the leaf \<^verbatim>\<open>ou=groups\<close> (id 4).
\<close>

definition mk_row :: "int \<Rightarrow> int \<Rightarrow> int \<Rightarrow> int list \<Rightarrow> bool \<Rightarrow> string \<Rightarrow> DBEntry" where
  "mk_row i rv p path c rdn =
     \<lparr>ID = i, UUID = rdn, Version = rv, ParentID = p, Path = path, IsContainer = c,
      RDNNorm = rdn, RDNOrig = rdn, AttrsOrig = (\<lambda>k. None)\<rparr>"

definition tree_db :: DB where
  "tree_db =
     \<lparr>rows = [mk_row 0 1 0 [] True ''dc=0'',
              mk_row 1 4 0 [1] True ''dc=example'',
              mk_row 2 3 1 [1, 2] True ''ou=people'',
              mk_row 3 2 2 [1, 2, 3] True ''ou=staff'',
              mk_row 4 1 1 [] False ''ou=groups'',
              mk_row 5 1 2 [] False ''cn=alice'',
              mk_row 6 1 3 [] False ''cn=bob''],
      seq = 7, notified = []\<rparr>"

definition mk_cache :: "DBEntry \<Rightarrow> CacheEntry" where
  "mk_cache e =
     \<lparr>c_ID = ID e, c_Version = Version e, c_ParentID = ParentID e, c_Path = Path e,
      c_IsContainer = IsContainer e, c_RDNNorm = RDNNorm e, c_RDNOrig = RDNOrig e,
      c_AttrsNorm = (\<lambda>k. None), c_AttrsOrig = AttrsOrig e\<rparr>"

definition tree_cache :: "CacheEntry list" where
  "tree_cache = map mk_cache (tl (rows tree_db))"

definition dn_of :: "(string \<times> string) list \<Rightarrow> DN" where
  "dn_of rs = DN (map (\<lambda>(t, v). RelativeDN [atv t v]) rs)"

text \<open>Rename \<^verbatim>\<open>cn=alice,ou=people,dc=example\<close> to \<^verbatim>\<open>cn=alice2\<close> under the same parent.\<close>

definition rename_alice :: UpdateDNInput where
  "rename_alice =
     \<lparr>ud_DN = dn_of [(''cn'', ''alice''), (''ou'', ''people''), (''dc'', ''example'')],
      ud_NewDN = dn_of [(''cn'', ''alice2''), (''ou'', ''people''), (''dc'', ''example'')],
      ud_modifiersName = ''cn=manager'', ud_timestamp = ''20200101000000Z'',
      ud_ops = [(''cn'', \<lparr>op_Add = [], op_Replace = [''alice2''], op_Delete = []\<rparr>)]\<rparr>"

text \<open>Move \<^verbatim>\<open>ou=people,dc=example\<close> under \<^verbatim>\<open>ou=groups,dc=example\<close>.\<close>

definition move_people :: UpdateDNInput where
  "move_people =
     \<lparr>ud_DN = dn_of [(''ou'', ''people''), (''dc'', ''example'')],
      ud_NewDN = dn_of [(''ou'', ''people''), (''ou'', ''groups''), (''dc'', ''example'')],
      ud_modifiersName = ''cn=manager'', ud_timestamp = ''20200101000000Z'',
      ud_ops = []\<rparr>"

text \<open>The message of a result, and the columns of the rows that a move can change.\<close>

definition message_of :: "error + (DB \<times> NotifyMessage option) \<Rightarrow> error + NotifyMessage option" where
  "message_of r = map_sum id snd r"

definition columns_of ::
  "error + (DB \<times> NotifyMessage option) \<Rightarrow>
   error + (int \<times> int \<times> int \<times> int list \<times> bool \<times> string) list" where
  "columns_of r =
     map_sum id
       (\<lambda>(db, m). map (\<lambda>e. (ID e, Version e, ParentID e, Path e, IsContainer e, RDNNorm e))
                        (rows db)) r"

text \<open>
  The same tree with a second sub-container of \<^verbatim>\<open>ou=people\<close>: \<^verbatim>\<open>ou=temps\<close> (id 7)
  with the leaf \<^verbatim>\<open>cn=carl\<close> (id 8).
\<close>

definition tree_db2 :: DB where
  "tree_db2 =
     tree_db\<lparr>rows := rows tree_db @ [mk_row 7 2 2 [1, 2, 7] True ''ou=temps'',
                                       mk_row 8 1 7 [] False ''cn=carl''],
             seq := 9\<rparr>"

definition tree_cache2 :: "CacheEntry list" where
  "tree_cache2 = map mk_cache (tl (rows tree_db2))"

section \<open>Parsing a DN (\<^verbatim>\<open>ParseDN\<close>)\<close>

text \<open>\<^verbatim>\<open>encoding/hex\<close>: one hexadecimal digit, and a string of pairs of them.\<close>

definition fromHexChar :: "char \<Rightarrow> nat option" where
  "fromHexChar c =
     (let n = (of_char c :: nat) in
      if 48 \<le> n \<and> n \<le> 57 then Some (n - 48)
      else if 97 \<le> n \<and> n \<le> 102 then Some (n - 97 + 10)
      else if 65 \<le> n \<and> n \<le> 70 then Some (n - 65 + 10)
      else None)"

fun hexDecodeString :: "string \<Rightarrow> string option" where
  "hexDecodeString [] = Some []"
| "hexDecodeString [a] = None"
| "hexDecodeString (a # b # cs) =
     (case fromHexChar a of
        None \<Rightarrow> None
      | Some x \<Rightarrow>
          (case fromHexChar b of
             None \<Rightarrow> None
           | Some y \<Rightarrow> map_option ((#) (char_of (x * 16 + y))) (hexDecodeString cs)))"

text \<open>
  The variables of the loop of \<^verbatim>\<open>ParseDN\<close>: the RDNs finished so far, the
  attributes of the RDN being read, the buffer, the type of the attribute being read
  (empty for a fresh attribute), the escape flag and the count of unescaped trailing
  spaces.
\<close>

record PState =
  p_RDNs :: "RelativeDN list"
  p_Attributes :: "AttributeTypeAndValue list"
  p_buffer :: string
  p_TypeOrig :: string
  p_TypeNorm :: string
  p_escaping :: bool
  p_unescapedTrailingSpaces :: nat

definition p_init :: PState where
  "p_init =
     \<lparr>p_RDNs = [], p_Attributes = [], p_buffer = [], p_TypeOrig = [], p_TypeNorm = [],
      p_escaping = False, p_unescapedTrailingSpaces = 0\<rparr>"

text \<open>
  The closure \<^verbatim>\<open>stringTypeFromBuffer\<close>: the buffer without its unescaped trailing
  spaces (the count never exceeds the length of the buffer).
\<close>

definition stringTypeFromBuffer :: "PState \<Rightarrow> string" where
  "stringTypeFromBuffer st =
     take (length (p_buffer st) - p_unescapedTrailingSpaces st) (p_buffer st)"

text \<open>
  The end of a value: \<^verbatim>\<open>stringValueFromBuffer\<close> and the append to the RDN. \<open>nsv\<close>
  stands for \<^verbatim>\<open>NewSchemaValue(sr, t, []string{orig})\<close> followed by
  \<^verbatim>\<open>NormStr()[0]\<close>; any error of it becomes \<^verbatim>\<open>InvalidDNSyntax\<close>.
\<close>

definition pushAttribute ::
  "(string \<Rightarrow> string \<Rightarrow> error + string) \<Rightarrow> PState \<Rightarrow> error + PState" where
  "pushAttribute nsv st =
     (let orig' = stringTypeFromBuffer st in
      case nsv (p_TypeNorm st) orig' of
        Inl e \<Rightarrow> (case e of Panic p \<Rightarrow> Inl (Panic p) | _ \<Rightarrow> Inl InvalidDNSyntax)
      | Inr nrm \<Rightarrow>
          Inr (st\<lparr>p_buffer := [], p_unescapedTrailingSpaces := 0,
                  p_Attributes := p_Attributes st @
                    [\<lparr>TypeOrig = p_TypeOrig st, TypeNorm = p_TypeNorm st, ValueOrig = orig',
                      ValueOrigEncoded = encodeDN orig', ValueNorm = nrm\<rparr>],
                  p_TypeOrig := [], p_TypeNorm := []\<rparr>))"

text \<open>
  The data of a BER-encoded value (\<^verbatim>\<open>=#\<close>): up to the first \<^verbatim>\<open>,\<close> or \<^verbatim>\<open>+\<close>
  when \<^verbatim>\<open>strings.IndexAny\<close> is positive, the whole rest otherwise.
\<close>

definition berData :: "string \<Rightarrow> string" where
  "berData r =
     (let index = length (takeWhile (\<lambda>c. c \<noteq> CHR '','' \<and> c \<noteq> CHR ''+'') r)
      in if 0 < index \<and> index < length r then take index r else r)"

text \<open>
  The loop over the bytes of the string, on the bytes not yet read. \<open>ber\<close> stands for
  \<^verbatim>\<open>ber.DecodePacketErr\<close> followed by \<^verbatim>\<open>packet.Data.String()\<close>.
\<close>

fun parse_loop ::
  "(string \<Rightarrow> string \<Rightarrow> error + string) \<Rightarrow> (string \<Rightarrow> string option) \<Rightarrow> PState \<Rightarrow> string \<Rightarrow>
   error + PState" where
  "parse_loop nsv ber st [] = Inr st"
| "parse_loop nsv ber st (char # rest) =
     (if p_escaping st then
        (if char \<in> set ('' #+,;<=>'' @ [dquote, bslash])
         then parse_loop nsv ber
                (st\<lparr>p_unescapedTrailingSpaces := 0, p_escaping := False,
                    p_buffer := p_buffer st @ [char]\<rparr>) rest
         else if rest = [] then Inl (OtherError ''got corrupted escaped character'')
         else
           (case hexDecodeString [char, hd rest] of
              None \<Rightarrow> Inl (OtherError ''failed to decode escaped character'')
            | Some b \<Rightarrow>
                parse_loop nsv ber
                  (st\<lparr>p_unescapedTrailingSpaces := 0, p_escaping := False,
                      p_buffer := p_buffer st @ b\<rparr>) (tl rest)))
      else if char = bslash then
        parse_loop nsv ber (st\<lparr>p_unescapedTrailingSpaces := 0, p_escaping := True\<rparr>) rest
      else if char = CHR ''='' then
        (let t = stringTypeFromBuffer st;
             st1 = st\<lparr>p_TypeOrig := t, p_TypeNorm := ToLower t, p_buffer := [],
                      p_unescapedTrailingSpaces := 0\<rparr>
         in if rest \<noteq> [] \<and> hd rest = CHR ''#'' then
              (case hexDecodeString (berData (tl rest)) of
                 None \<Rightarrow> Inl (OtherError ''failed to decode BER encoding'')
               | Some rawBER \<Rightarrow>
                   (case ber rawBER of
                      None \<Rightarrow> Inl (OtherError ''failed to decode BER packet'')
                    | Some s \<Rightarrow>
                        parse_loop nsv ber (st1\<lparr>p_buffer := s\<rparr>)
                          (drop (length (berData (tl rest))) (tl rest))))
            else parse_loop nsv ber st1 rest)
      else if char = CHR '','' \<or> char = CHR ''+'' then
        (if length (p_TypeOrig st) = 0 then Inl (OtherError ''incomplete type, value pair'')
         else
           (case pushAttribute nsv st of
              Inl e \<Rightarrow> Inl e
            | Inr st1 \<Rightarrow>
                parse_loop nsv ber
                  (if char = CHR '',''
                   then st1\<lparr>p_RDNs := p_RDNs st1 @ [RelativeDN (p_Attributes st1)],
                            p_Attributes := []\<rparr>
                   else st1) rest))
      else if char = CHR '' '' \<and> length (p_buffer st) = 0 then parse_loop nsv ber st rest
      else
        parse_loop nsv ber
          (st\<lparr>p_unescapedTrailingSpaces :=
                 (if char = CHR '' '' then p_unescapedTrailingSpaces st + 1 else 0),
              p_buffer := p_buffer st @ [char]\<rparr>) rest)"

text \<open>After the loop: a non-empty buffer is the last value.\<close>

definition parse_finish ::
  "(string \<Rightarrow> string \<Rightarrow> error + string) \<Rightarrow> PState \<Rightarrow> error + DN" where
  "parse_finish nsv st =
     (if length (p_buffer st) > 0 then
        (if length (p_TypeOrig st) = 0
         then Inl (OtherError ''DN ended with incomplete type, value pair'')
         else
           (case pushAttribute nsv st of
              Inl e \<Rightarrow> Inl e
            | Inr st1 \<Rightarrow> Inr (DN (p_RDNs st1 @ [RelativeDN (p_Attributes st1)]))))
      else Inr (DN (p_RDNs st)))"

definition ParseDN_with ::
  "(string \<Rightarrow> string \<Rightarrow> error + string) \<Rightarrow> (string \<Rightarrow> string option) \<Rightarrow> string \<Rightarrow> error + DN" where
  "ParseDN_with nsv ber str =
     (case parse_loop nsv ber p_init str of
        Inl e \<Rightarrow> Inl e
      | Inr st \<Rightarrow> parse_finish nsv st)"

section \<open>Normalising attribute values (\<^verbatim>\<open>normalize\<close>, \<^verbatim>\<open>NewSchemaValue\<close>)\<close>

text \<open>
  The class \<^verbatim>\<open>\s\<close> of Go's regular expressions: tab, line feed, form feed,
  carriage return and space.
\<close>

definition is_space :: "char \<Rightarrow> bool" where
  "is_space c = ((of_char c :: nat) \<in> {9, 10, 12, 13, 32})"

text \<open>
  \<^verbatim>\<open>SPACE_PATTERN.ReplaceAllString(value, " ")\<close>: every maximal run of white space
  becomes one space. The flag says that the byte before was white space.
\<close>

fun squeeze :: "bool \<Rightarrow> string \<Rightarrow> string" where
  "squeeze b [] = []"
| "squeeze b (c # cs) =
     (if is_space c then (if b then squeeze True cs else CHR '' '' # squeeze True cs)
      else c # squeeze False cs)"

text \<open>\<^verbatim>\<open>strings.Trim(str, " ")\<close>.\<close>

definition trim_spaces :: "string \<Rightarrow> string" where
  "trim_spaces s =
     rev (dropWhile (\<lambda>c. c = CHR '' '') (rev (dropWhile (\<lambda>c. c = CHR '' '') s)))"


definition normalizeSpace :: "string \<Rightarrow> string" where
  "normalizeSpace v = trim_spaces (squeeze False v)"

definition removeAllSpace :: "string \<Rightarrow> string" where
  "removeAllSpace v = filter (\<lambda>c. \<not> is_space c) v"

text \<open>
  What the schema package takes from libraries: \<^verbatim>\<open>time.Parse\<close> (with the values of
  \<^verbatim>\<open>Unix()\<close> and \<^verbatim>\<open>UnixNano()\<close> of the parsed time), \<^verbatim>\<open>uuid.Parse\<close> followed
  by \<^verbatim>\<open>String()\<close>, and the BER decoder. The branch of \<^verbatim>\<open>Normalize\<close> for
  \<^verbatim>\<open>objectClass\<close>, which orders the classes with \<^verbatim>\<open>sort.Slice\<close>, is taken as a
  function too: it gives the normalised values.
\<close>

record SchemaEnv =
  se_timeParse :: "string \<Rightarrow> string \<Rightarrow> (int \<times> int) option"
  se_uuid :: "string \<Rightarrow> string option"
  se_berDecode :: "string \<Rightarrow> string option"
  se_objectClass :: "string list \<Rightarrow> error + NormValue list"

definition IsNanoFormat :: "AttributeType \<Rightarrow> bool" where
  "IsNanoFormat s = (Name s = ''pwdFailureTime'')"

text \<open>
  \<^verbatim>\<open>normalizeDistinguishedName\<close>; \<open>parseDN\<close> stands for \<^verbatim>\<open>NormalizeDN\<close> with the
  registry of the attribute type.
\<close>

definition normalizeDistinguishedName ::
  "(string \<Rightarrow> error + DN) \<Rightarrow> AttributeType \<Rightarrow> string \<Rightarrow> nat \<Rightarrow> error + DN" where
  "normalizeDistinguishedName parseDN s v index =
     (case parseDN v of
        Inl e \<Rightarrow> (case e of Panic p \<Rightarrow> Inl (Panic p) | _ \<Rightarrow> Inl (InvalidPerSyntax (Name s) index))
      | Inr dn \<Rightarrow> Inr dn)"

definition normalizeGeneralizedTime ::
  "SchemaEnv \<Rightarrow> AttributeType \<Rightarrow> string \<Rightarrow> nat \<Rightarrow> error + int" where
  "normalizeGeneralizedTime env s v index =
     (case se_timeParse env TIMESTAMP_FORMAT v of
        None \<Rightarrow> Inl (InvalidPerSyntax (Name s) index)
      | Some (unix, unixNano) \<Rightarrow> if IsNanoFormat s then Inr unixNano else Inr unix)"

definition normalizeBoolean :: "AttributeType \<Rightarrow> string \<Rightarrow> nat \<Rightarrow> error + string" where
  "normalizeBoolean s v index =
     (if v \<noteq> ''TRUE'' \<and> v \<noteq> ''FALSE'' then Inl (InvalidPerSyntax (Name s) index) else Inr v)"

definition normalizeUUID :: "SchemaEnv \<Rightarrow> AttributeType \<Rightarrow> string \<Rightarrow> nat \<Rightarrow> error + string" where
  "normalizeUUID env s v index =
     (case se_uuid env v of None \<Rightarrow> Inl (InvalidPerSyntax (Name s) index) | Some u \<Rightarrow> Inr u)"

text \<open>\<^verbatim>\<open>normalize\<close>: the switch on the equality rule, then on the substring rule.\<close>

definition normalize_val ::
  "SchemaEnv \<Rightarrow> (string \<Rightarrow> error + DN) \<Rightarrow> AttributeType \<Rightarrow> string \<Rightarrow> nat \<Rightarrow> error + NormValue" where
  "normalize_val env parseDN s v index =
     (if Equality s = ''caseExactMatch'' then Inr (NString (normalizeSpace v))
      else if Equality s = ''caseIgnoreMatch'' then Inr (NString (ToLower (normalizeSpace v)))
      else if Equality s = ''distinguishedNameMatch''
      then map_sum id NDN (normalizeDistinguishedName parseDN s v index)
      else if Equality s = ''caseExactIA5Match'' then Inr (NString (normalizeSpace v))
      else if Equality s = ''caseIgnoreIA5Match'' then Inr (NString (ToLower (normalizeSpace v)))
      else if Equality s = ''generalizedTimeMatch''
      then map_sum id NInt (normalizeGeneralizedTime env s v index)
      else if Equality s = ''objectIdentifierMatch'' then Inr (NString (ToLower v))
      else if Equality s = ''numericStringMatch'' then Inr (NString (removeAllSpace v))
      else if Equality s = ''integerMatch''
      then (case ParseInt v of
              None \<Rightarrow> Inl (InvalidPerSyntax (Name s) index)
            | Some i \<Rightarrow> Inr (NInt i))
      else if Equality s = ''booleanMatch'' then map_sum id NString (normalizeBoolean s v index)
      else if Equality s = ''UUIDMatch'' then map_sum id NString (normalizeUUID env s v index)
      else if Equality s = ''uniqueMemberMatch''
      then (case normalizeDistinguishedName parseDN s v index of
              Inl e \<Rightarrow> (case e of Panic p \<Rightarrow> Inl (Panic p)
                         | _ \<Rightarrow> Inr (NString (ToLower (normalizeSpace v))))
            | Inr nv \<Rightarrow> Inr (NDN nv))
      else if Substr s = ''caseExactSubstringsMatch'' then Inr (NString (normalizeSpace v))
      else if Substr s = ''caseIgnoreSubstringsMatch''
      then Inr (NString (ToLower (normalizeSpace v)))
      else if Substr s = ''caseExactIA5SubstringsMatch'' then Inr (NString (normalizeSpace v))
      else if Substr s = ''caseIgnoreIA5SubstringsMatch''
      then Inr (NString (ToLower (normalizeSpace v)))
      else Inr (NString v))"

definition toNormStr :: "NormValue \<Rightarrow> string" where
  "toNormStr nv = (case nv of NString v \<Rightarrow> v | NInt i \<Rightarrow> FormatInt i | NDN d \<Rightarrow> DNNormStr d)"


definition IsAssociationAttribute :: "AttributeType \<Rightarrow> bool" where
  "IsAssociationAttribute s = (Name s = ''member'' \<or> Name s = ''uniqueMember'')"

definition IsReverseAssociationAttribute :: "AttributeType \<Rightarrow> bool" where
  "IsReverseAssociationAttribute s = (Name s = ''memberOf'')"

text \<open>
  The loops of \<^verbatim>\<open>Normalize\<close> over the values, from index \<open>i\<close>, with the values and
  strings normalised so far; \<open>assoc\<close> selects the branch of the association
  attributes, where a decimal integer is kept as an id. A normalised string seen
  before is the error \<^verbatim>\<open>NewMoreThanOnceError\<close>.
\<close>

fun normalize_values ::
  "SchemaEnv \<Rightarrow> (string \<Rightarrow> error + DN) \<Rightarrow> AttributeType \<Rightarrow> bool \<Rightarrow> nat \<Rightarrow> string list \<Rightarrow>
   NormValue list \<Rightarrow> string list \<Rightarrow> error + (NormValue list \<times> string list)" where
  "normalize_values env parseDN s assoc i [] nv ns = Inr (nv, ns)"
| "normalize_values env parseDN s assoc i (v # vs) nv ns =
     (case (case (if assoc then ParseInt v else None) of
              Some iv \<Rightarrow> Inr (NInt iv)
            | None \<Rightarrow> normalize_val env parseDN s v i) of
        Inl e \<Rightarrow> Inl e
      | Inr n \<Rightarrow>
          if toNormStr n \<in> set ns then Inl (OtherError (''more than once: '' @ Name s))
          else normalize_values env parseDN s assoc (Suc i) vs (nv @ [n]) (ns @ [toNormStr n]))"

text \<open>
  \<^verbatim>\<open>NewSchemaValue\<close>, with \<^verbatim>\<open>Normalize\<close> on the fresh value. The errors
  \<^verbatim>\<open>NewUndefinedType\<close> and \<^verbatim>\<open>NewMultipleValuesProvidedError\<close> are of the util
  package.
\<close>

definition NewSchemaValue ::
  "SchemaEnv \<Rightarrow> (string \<Rightarrow> error + DN) \<Rightarrow> SchemaRegistry \<Rightarrow> string \<Rightarrow> string list \<Rightarrow>
   error + SchemaValue" where
  "NewSchemaValue env parseDN sr attrName attrValue =
     (case sr_AttributeType sr attrName of
        None \<Rightarrow> Inl (OtherError (''undefined attribute type: '' @ attrName))
      | Some s \<Rightarrow>
          if SingleValue s \<and> length attrValue > 1
          then Inl (OtherError (''multiple values provided: '' @ attrName))
          else
            (case (if Name s = ''objectClass''
                   then map_sum id (\<lambda>nv. (nv, map toNormStr nv)) (se_objectClass env attrValue)
                   else normalize_values env parseDN s
                          (IsAssociationAttribute s \<or> IsReverseAssociationAttribute s)
                          0 attrValue [] []) of
               Inl e \<Rightarrow> Inl e
             | Inr (nv, ns) \<Rightarrow>
                 Inr \<lparr>schema = s, orig = attrValue, norm = nv, normStr = ns,
                      normIndex = set ns\<rparr>))"

text \<open>
  The call of \<^verbatim>\<open>ParseDN\<close> for one value: \<^verbatim>\<open>NewSchemaValue(sr, t, []string{orig})\<close>
  and \<^verbatim>\<open>sv.NormStr()[0]\<close>.
\<close>

definition normStr0 ::
  "SchemaEnv \<Rightarrow> (string \<Rightarrow> error + DN) \<Rightarrow> SchemaRegistry \<Rightarrow> string \<Rightarrow> string \<Rightarrow> error + string" where
  "normStr0 env parseDN sr t orig' =
     (case NewSchemaValue env parseDN sr t [orig'] of
        Inl e \<Rightarrow> Inl e
      | Inr sv \<Rightarrow>
          (case normStr sv of [] \<Rightarrow> Inl (Panic ''index out of range'') | n # ns \<Rightarrow> Inr n))"

text \<open>
  \<^verbatim>\<open>NormalizeDN\<close> and \<^verbatim>\<open>ParseDN\<close> call each other through \<^verbatim>\<open>NewSchemaValue\<close>
  when an attribute of a DN has itself the syntax of a DN; each nested call parses the
  value of an attribute, a part of the string. \<open>n\<close> bounds the depth of this nesting,
  and a parse that needs more ends with a panic of its own name.
\<close>

primrec NormalizeDN_n :: "nat \<Rightarrow> SchemaEnv \<Rightarrow> SchemaRegistry \<Rightarrow> string \<Rightarrow> error + DN" where
  "NormalizeDN_n 0 env sr dn = Inl (Panic ''nesting bound exceeded'')"
| "NormalizeDN_n (Suc n) env sr dn =
     (if dn = [] then Inr anonymousDN
      else ParseDN_with (normStr0 env (NormalizeDN_n n env sr) sr) (se_berDecode env) dn)"

definition ParseDN :: "SchemaEnv \<Rightarrow> SchemaRegistry \<Rightarrow> string \<Rightarrow> error + DN" where
  "ParseDN env sr str =
     ParseDN_with (normStr0 env (NormalizeDN_n (length str) env sr) sr) (se_berDecode env) str"


subsection \<open>A schema for concrete evaluation\<close>

text \<open>
  A time parser and a BER decoder that accept nothing, a UUID parser that accepts one
  UUID in either case and prints it in lower case, and the registry of the changelog
  examples extended by \<^verbatim>\<open>seeAlso\<close>, whose equality rule is
  \<^verbatim>\<open>distinguishedNameMatch\<close>.
\<close>

definition ex_senv :: SchemaEnv where
  "ex_senv =
     \<lparr>se_timeParse = (\<lambda>layout v. None), se_uuid = (\<lambda>v. if ToLower v = ''abcdef00-0000-0000-0000-000000000001''
                      then Some (ToLower v) else None), se_berDecode = (\<lambda>b. None),
      se_objectClass = (\<lambda>vs. Inl (InvalidPerSyntax ''objectClass'' 0))\<rparr>"




section \<open>Properties of the DN encoding\<close>

lemma hex_escape_specials:
  "hex_escape (CHR '' '') = [bslash, CHR ''2'', CHR ''0'']"
  "hex_escape dquote = [bslash, CHR ''2'', CHR ''2'']"
  "hex_escape (CHR ''#'') = [bslash, CHR ''2'', CHR ''3'']"
  "hex_escape (CHR ''+'') = [bslash, CHR ''2'', CHR ''B'']"
  "hex_escape (CHR '','') = [bslash, CHR ''2'', CHR ''C'']"
  "hex_escape (CHR '';'') = [bslash, CHR ''3'', CHR ''B'']"
  "hex_escape (CHR ''<'') = [bslash, CHR ''3'', CHR ''C'']"
  "hex_escape (CHR ''='') = [bslash, CHR ''3'', CHR ''D'']"
  "hex_escape (CHR ''>'') = [bslash, CHR ''3'', CHR ''E'']"
  "hex_escape bslash = [bslash, CHR ''5'', CHR ''C'']"
  by code_simp+

lemma special_distinct:
  "dquote \<noteq> CHR '' ''" "dquote \<noteq> CHR ''#''" "dquote \<noteq> CHR ''+''" "dquote \<noteq> CHR '',''"
  "dquote \<noteq> CHR '';''" "dquote \<noteq> CHR ''<''" "dquote \<noteq> CHR ''=''" "dquote \<noteq> CHR ''>''"
  "bslash \<noteq> CHR '' ''" "bslash \<noteq> CHR ''#''" "bslash \<noteq> CHR ''+''" "bslash \<noteq> CHR '',''"
  "bslash \<noteq> CHR '';''" "bslash \<noteq> CHR ''<''" "bslash \<noteq> CHR ''=''" "bslash \<noteq> CHR ''>''"
  "bslash \<noteq> dquote"
  by (simp_all add: bslash_def dquote_def)

lemma encodeDN_char_escape:
  assumes "i < length s" "lst = int (length s) - 1"
  shows "encodeDN_char lst i (s ! i) =
         (if must_escape s i then hex_escape (s ! i) else [s ! i])"
proof -
  have eq: "(int i = int (length s) - 1) = (Suc i = length s)"
    using assms(1) by auto
  show ?thesis
    unfolding encodeDN_char_def must_escape_def spec_must_escape_def assms(2) eq
    using special_distinct special_distinct[symmetric]
    by (auto simp: hex_escape_specials)
qed

lemma encodeDN_loop_drop:
  "i \<le> length s \<Longrightarrow>
   encodeDN_loop (int (length s) - 1) i (drop i s) =
   concat (map (\<lambda>j. if must_escape s j then hex_escape (s ! j) else [s ! j]) [i..<length s])"
proof (induction "length s - i" arbitrary: i)
  case 0
  then show ?case by simp
next
  case (Suc n)
  then have lt: "i < length s" by simp
  then have d: "drop i s = s ! i # drop (Suc i) s"
    by (simp add: Cons_nth_drop_Suc)
  have n: "n = length s - Suc i" using Suc.hyps(2) by simp
  have ih: "encodeDN_loop (int (length s) - 1) (Suc i) (drop (Suc i) s) =
        concat (map (\<lambda>j. if must_escape s j then hex_escape (s ! j) else [s ! j])
                    [Suc i..<length s])"
    using Suc.hyps(1)[OF n] lt by simp
  show ?case
    using lt by (simp add: d ih encodeDN_char_escape upt_conv_Cons)
qed

text \<open>
  C9 (as amended): for every input string, \<^verbatim>\<open>encodeDN\<close> replaces by \<open>\HH\<close> exactly
  the bytes \<open>" + , ; < = > \\<close>, a space in first or last position and a \<open>#\<close> in first
  position, and copies every other byte unchanged.
\<close>

theorem encodeDN_escapes:
  "encodeDN s =
   concat (map (\<lambda>i. if must_escape s i then hex_escape (s ! i) else [s ! i]) [0..<length s])"
  using encodeDN_loop_drop[of 0 s] by (simp add: encodeDN_def)

text \<open>
  C9 (as stated) fails: the claim lists the escaped characters without \<open>=\<close>, but the
  code has a case for it, so \<open>a=b\<close> is not copied through.
\<close>

theorem encodeDN_equals_sign_counterexample:
  "encodeDN ''a=b'' = [CHR ''a'', bslash, CHR ''3'', CHR ''D'', CHR ''b'']
   \<and> spec_encodeDN ''a=b'' = ''a=b''
   \<and> encodeDN ''a=b'' \<noteq> spec_encodeDN ''a=b''"
  by (simp add: encodeDN_def encodeDN_char_def spec_encodeDN_def spec_must_escape_def
      bslash_def dquote_def upt_conv_Cons)

section \<open>The attribute diff of a changelog\<close>

lemma lower_displayName: "ToLower ''displayName'' = ''displayname''"
  by code_simp

text \<open>
  C2 fails on the code for a single-valued attribute: replacing
  \<^verbatim>\<open>displayName: Alice\<close> by the same value records the attribute as touched, and
  \<^verbatim>\<open>ToDiff\<close> then emits the empty operation (a clear) although the new value set
  is not empty and equals the old one. \<^verbatim>\<open>Diff\<close> returns three \<^verbatim>\<open>nil\<close> slices
  for an unchanged single value, which \<^verbatim>\<open>ToDiff\<close> reads as a clear.
\<close>

theorem ToDiff_same_single_value_is_clear:
  "fst (Replace ex_changelog sv_Alice) = None
   \<and> ToDiff (snd (Replace ex_changelog sv_Alice)) ''displayName'' = Inr (Some emptyOp)
   \<and> IsClear emptyOp
   \<and> attr_values (snd (Replace ex_changelog sv_Alice)) ''displayName'' = [''Alice'']
   \<and> old_values ex_changelog ''displayName'' = [''Alice'']"
  by (simp add: Replace_def ex_changelog_def sv_Alice_def at_displayName_def ex_registry_def
      IsNoUserModificationWithMigrationDisabled_def sv_Name_def record_change_def replacesv_def
      IsEmpty_def ToDiff_def ToDiff_old_def Diff_def IsSingle_def emptyOp_def IsClear_def
      IsAdd_def IsReplace_def IsDelete_def attr_values_def old_values_def)

section \<open>Deleting attribute values from a changelog\<close>

lemma sv_Delete_missing:
  "list_ex (\<lambda>x. x \<notin> normIndex cur) (normStr v) \<Longrightarrow>
   sv_Delete cur v = Inl (NoSuchAttribute ''modify/delete'' (sv_Name v))"
  by (simp add: sv_Delete_def)

lemma deletesv_missing:
  assumes "\<not> IsEmpty v" "list_ex (\<lambda>x. \<not> present c (sv_Name v) x) (normStr v)"
  shows "deletesv c v = (Some (NoSuchAttribute ''modify/delete'' (sv_Name v)), c)"
proof (cases "newEntry c (sv_Name v)")
  case None
  then show ?thesis using assms(1) by (simp add: deletesv_def)
next
  case (Some cur)
  then have "list_ex (\<lambda>x. x \<notin> normIndex cur) (normStr v)"
    using assms(2) by (simp add: present_def)
  then show ?thesis
    using assms(1) Some by (simp add: deletesv_def sv_Delete_missing)
qed

lemma deleteAll_result:
  assumes "sr_AttributeType (c_schema c) (Name s) = Some s'" "Name s' = Name s"
  shows "fst (deleteAll c s) =
           (if HasAttr c (Name s) then None
            else Some (NoSuchAttribute ''modify/delete'' (Name s)))"
  using assms
  by (auto simp: deleteAll_def HasAttr_def split: option.splits)

lemma deleteAll_clears:
  assumes "sr_AttributeType (c_schema c) (Name s) = Some s'" "Name s' = Name s"
  shows "attr_values (snd (deleteAll c s)) (Name s) = []"
  using assms
  by (auto simp: deleteAll_def HasAttr_def attr_values_def Clear_def IsEmpty_def
      split: option.splits)

text \<open>
  C6: deleting a non-empty value set of which some value is not present on the
  attribute (or whose attribute is missing) fails with \<open>NoSuchAttribute\<close> and leaves
  the changelog as it was; after deleting with an empty value set the attribute has
  no value left (the call clears a present attribute and reports \<open>NoSuchAttribute\<close>
  for one that holds no value). The hypothesis says that the registry knows the
  attribute type under its own name.
\<close>

theorem deletesv_contract:
  assumes "sr_AttributeType (c_schema c) (sv_Name v) = Some s'" "Name s' = sv_Name v"
  shows "(\<not> IsEmpty v \<and> list_ex (\<lambda>x. \<not> present c (sv_Name v) x) (normStr v) \<longrightarrow>
            deletesv c v = (Some (NoSuchAttribute ''modify/delete'' (sv_Name v)), c))
         \<and> (IsEmpty v \<longrightarrow>
              attr_values (snd (deletesv c v)) (sv_Name v) = []
              \<and> fst (deletesv c v) =
                  (if HasAttr c (sv_Name v) then None
                   else Some (NoSuchAttribute ''modify/delete'' (sv_Name v))))"
proof (intro conjI impI)
  assume "\<not> IsEmpty v \<and> list_ex (\<lambda>x. \<not> present c (sv_Name v) x) (normStr v)"
  then show "deletesv c v = (Some (NoSuchAttribute ''modify/delete'' (sv_Name v)), c)"
    using deletesv_missing by blast
next
  assume e: "IsEmpty v"
  have d: "deletesv c v = deleteAll c (schema v)" using e by (simp add: deletesv_def)
  from deleteAll_clears[of c "schema v" s'] assms
  show "attr_values (snd (deletesv c v)) (sv_Name v) = []"
    by (simp add: d sv_Name_def)
  from deleteAll_result[of c "schema v" s'] assms
  show "fst (deletesv c v) =
          (if HasAttr c (sv_Name v) then None
           else Some (NoSuchAttribute ''modify/delete'' (sv_Name v)))"
    by (simp add: d sv_Name_def)
qed

text \<open>
  Witness for C6: on the entry with \<^verbatim>\<open>displayName: Alice\<close>, deleting the value
  \<^verbatim>\<open>Bob\<close> is refused and deleting with no value clears the attribute.
\<close>

theorem deletesv_contract_witness:
  "(\<not> IsEmpty sv_Bob \<and> list_ex (\<lambda>x. \<not> present ex_changelog (sv_Name sv_Bob) x) (normStr sv_Bob))
   \<and> deletesv ex_changelog sv_Bob
       = (Some (NoSuchAttribute ''modify/delete'' ''displayName''), ex_changelog)
   \<and> IsEmpty sv_none
   \<and> attr_values ex_changelog ''displayName'' = [''Alice'']
   \<and> attr_values (snd (deletesv ex_changelog sv_none)) ''displayName'' = []
   \<and> fst (deletesv ex_changelog sv_none) = None"
proof -
  have reg: "sr_AttributeType (c_schema ex_changelog) ''displayName'' = Some at_displayName"
    "Name at_displayName = ''displayName''"
    by (simp_all add: sr_AttributeType_def ex_changelog_def ex_registry_def lower_displayName
        at_displayName_def)
  have nb: "sv_Name sv_Bob = ''displayName''" and nn: "sv_Name sv_none = ''displayName''"
    by (simp_all add: sv_Name_def sv_Bob_def sv_none_def at_displayName_def)
  have h1: "\<not> IsEmpty sv_Bob \<and>
            list_ex (\<lambda>x. \<not> present ex_changelog (sv_Name sv_Bob) x) (normStr sv_Bob)"
    by (simp add: IsEmpty_def sv_Bob_def present_def ex_changelog_def sv_Name_def
        at_displayName_def sv_Alice_def)
  have h2: "IsEmpty sv_none" by (simp add: IsEmpty_def sv_none_def)
  have has: "HasAttr ex_changelog ''displayName''"
    using reg by (simp add: HasAttr_def ex_changelog_def IsEmpty_def sv_Alice_def)
  have a: "attr_values ex_changelog ''displayName'' = [''Alice'']"
    by (simp add: attr_values_def ex_changelog_def sv_Alice_def)
  from deletesv_contract[of ex_changelog sv_Bob at_displayName] reg nb h1
  have c1: "deletesv ex_changelog sv_Bob
       = (Some (NoSuchAttribute ''modify/delete'' ''displayName''), ex_changelog)"
    by simp
  from deletesv_contract[of ex_changelog sv_none at_displayName] reg nn h2 has
  have c2: "attr_values (snd (deletesv ex_changelog sv_none)) ''displayName'' = []
     \<and> fst (deletesv ex_changelog sv_none) = None"
    by simp
  show ?thesis using h1 h2 a c1 c2 by simp
qed

section \<open>The cache follows the durable store (\<^verbatim>\<open>OnUpdate\<close>)\<close>

lemma find_map_replace:
  "find (\<lambda>x. c_ID x = i) (map (\<lambda>x. if c_ID x = c_ID e then e else x) c) =
   (if c_ID e = i then (if list_ex (\<lambda>x. c_ID x = i) c then Some e else None)
    else find (\<lambda>x. c_ID x = i) c)"
  by (induction c) auto

lemma find_snoc:
  "find P (xs @ [e]) =
   (case find P xs of Some x \<Rightarrow> Some x | None \<Rightarrow> if P e then Some e else None)"
  by (induction xs) auto

lemma find_None_list_ex: "(find P xs = None) = (\<not> list_ex P xs)"
  by (auto simp: find_None_iff list_ex_iff)

lemma cache_find_upsert:
  "cache_find (cache_upsert e c) i = (if c_ID e = i then Some e else cache_find c i)"
proof (cases "list_ex (\<lambda>x. c_ID x = c_ID e) c")
  case True
  then show ?thesis
    by (auto simp: cache_find_def cache_upsert_def find_map_replace)
next
  case False
  then have "find (\<lambda>x. c_ID x = c_ID e) c = None"
    by (simp add: find_None_list_ex)
  with False show ?thesis
    by (auto simp: cache_find_def cache_upsert_def find_snoc split: option.splits)
qed

lemma set_cache_upsert:
  "set (cache_upsert e c) \<subseteq> insert e (set c)"
  by (auto simp: cache_upsert_def split: if_splits)

lemma CacheEntry_upsert_other:
  "CacheEntry_upsert pj c r = Inr c' \<Longrightarrow> ID r \<noteq> i \<Longrightarrow> cache_find c' i = cache_find c i"
  by (auto simp: CacheEntry_upsert_def cache_find_upsert split: sum.splits)

lemma CacheEntry_upsert_same:
  "CacheEntry_upsert pj c r = Inr c' \<Longrightarrow>
   \<exists>e. cache_find c' (ID r) = Some e \<and> c_Version e = Version r"
  by (auto simp: CacheEntry_upsert_def cache_find_upsert split: sum.splits)


lemma find_SomeD: "find P xs = Some x \<Longrightarrow> P x \<and> x \<in> set xs"
  by (induction xs) (auto split: if_splits)

lemma db_get_row_image: "db_get db i = Inr r \<Longrightarrow> row_image db r \<and> ID r = i"
proof -
  assume "db_get db i = Inr r"
  then have "find (\<lambda>e. ID e = i) (rows db) = Some r"
    by (simp add: db_get_def split: option.splits)
  then have "ID r = i \<and> r \<in> set (rows db)" by (rule find_SomeD)
  then show ?thesis by (auto simp: row_image_def)
qed

lemma CacheEntry_rows_inv:
  assumes step: "\<forall>c r c'. I c \<and> row_image db r \<and> CacheEntry_upsert pj c r = Inr c' \<longrightarrow> I c'"
  shows "I c \<Longrightarrow> list_all (row_image db) rs \<Longrightarrow> CacheEntry_rows pj c rs = Inr c' \<Longrightarrow> I c'"
proof (induction rs arbitrary: c)
  case Nil
  then show ?case by simp
next
  case (Cons r rs)
  from Cons.prems(3) obtain c1 where u: "CacheEntry_upsert pj c r = Inr c1"
    and rest: "CacheEntry_rows pj c1 rs = Inr c'"
    by (auto split: sum.splits)
  have "I c1" using step Cons.prems(1,2) u by auto
  then show ?case using Cons.IH[OF _ _ rest] Cons.prems(2) by simp
qed

lemma CacheAssociation_rows_inv:
  assumes step: "\<forall>c r c'. I c \<and> row_image db r \<and> CacheEntry_upsert pj c r = Inr c' \<longrightarrow> I c'"
  shows "I c \<Longrightarrow> list_all (row_image db) rs \<Longrightarrow> CacheAssociation_rows pj c rs = Inr c' \<Longrightarrow> I c'"
proof (induction rs arbitrary: c)
  case Nil
  then show ?case by simp
next
  case (Cons r rs)
  let ?d = "r\<lparr>Path := [], IsContainer := False\<rparr>"
  have img: "row_image db ?d"
    using Cons.prems(2) by (simp add: row_image_def)
  have tl: "list_all (row_image db) rs" using Cons.prems(2) by simp
  consider (skip) "CacheAssociation_rows pj c rs = Inr c'"
    | (ups) c1 where "CacheEntry_upsert pj c ?d = Inr c1" "CacheAssociation_rows pj c1 rs = Inr c'"
    using Cons.prems(3)
    by (simp only: CacheAssociation_rows.simps Let_def)
       (auto split: option.splits if_splits sum.splits)
  then show ?case
  proof cases
    case skip
    then show ?thesis using Cons.IH[OF Cons.prems(1) tl] by simp
  next
    case ups
    have "I c1" using step Cons.prems(1) img ups(1) by blast
    then show ?thesis using Cons.IH[OF _ tl ups(2)] by simp
  qed
qed

lemma filter_rows_image: "list_all (row_image db) (filter P (rows db))"
  by (auto simp: list_all_iff row_image_def)

lemma CacheAssociation_inv:
  assumes step: "\<forall>c r c'. I c \<and> row_image db r \<and> CacheEntry_upsert pj c r = Inr c' \<longrightarrow> I c'"
    and "I c" "CacheAssociation pj db c ids = Inr c'"
  shows "I c'"
proof (cases "length ids = 0")
  case True
  then show ?thesis using assms(2,3) by (simp add: CacheAssociation_def)
next
  case False
  then have "CacheAssociation_rows pj c (filter (\<lambda>e. ID e \<in> set ids) (rows db)) = Inr c'"
    using assms(3) by (simp add: CacheAssociation_def)
  then show ?thesis
    using CacheAssociation_rows_inv[of I db pj, OF step assms(2) filter_rows_image] by blast
qed

lemma CacheEntryByID_inv:
  assumes step: "\<forall>c r c'. I c \<and> row_image db r \<and> CacheEntry_upsert pj c r = Inr c' \<longrightarrow> I c'"
    and "I c" "CacheEntryByID pj db c i a = Inr c'"
  shows "I c'"
proof -
  from assms(3) obtain r c1 where g: "db_get db i = Inr r"
    and u: "CacheEntry_upsert pj c r = Inr c1"
    and rest: "(if a then CacheAssociation pj db c1 (assoc_ids (AttrsOrig r)) else Inr c1) = Inr c'"
    by (auto simp: CacheEntryByID_def split: sum.splits)
  have "I c1" using step assms(2) u db_get_row_image[OF g] by blast
  then show ?thesis
    using rest CacheAssociation_inv[of I db pj, OF step]
    by (cases a) auto
qed

lemma CacheEntryByID_all_inv:
  assumes step: "\<forall>c r c'. I c \<and> row_image db r \<and> CacheEntry_upsert pj c r = Inr c' \<longrightarrow> I c'"
  shows "I c \<Longrightarrow> CacheEntryByID_all pj db c is = Inr c' \<Longrightarrow> I c'"
proof (induction "is" arbitrary: c)
  case Nil
  then show ?case by simp
next
  case (Cons i "is")
  from Cons.prems(2) obtain c1 where u: "CacheEntryByID pj db c i False = Inr c1"
    and rest: "CacheEntryByID_all pj db c1 is = Inr c'"
    by (auto split: sum.splits)
  have "I c1" using CacheEntryByID_inv[of I db pj, OF step Cons.prems(1) u] .
  then show ?case using Cons.IH[OF _ rest] by simp
qed

lemma CacheEntryBySubTree_inv:
  assumes step: "\<forall>c r c'. I c \<and> row_image db r \<and> CacheEntry_upsert pj c r = Inr c' \<longrightarrow> I c'"
    and "I c" "CacheEntryBySubTree pj db c i = Inr c'"
  shows "I c'"
  using CacheEntry_rows_inv[of I db pj, OF step assms(2) filter_rows_image] assms(3)
  by (simp add: CacheEntryBySubTree_def)


lemma OnUpdate_upsert_inv:
  assumes step: "\<forall>c r c'. I c \<and> row_image db r \<and> CacheEntry_upsert pj c r = Inr c' \<longrightarrow> I c'"
    and "I c" "OnUpdate_upsert pj db c m = Inr c'"
  shows "I c'"
proof -
  from assms(3) obtain c1 c2 where a: "CacheEntryByID pj db c (m_ID m) (Association m) = Inr c1"
    and b: "CacheEntryByID_all pj db c1 (Dependant m) = Inr c2"
    and d: "(if Sub m then CacheEntryBySubTree pj db c2 (m_ID m) else Inr c2) = Inr c'"
    by (auto simp: OnUpdate_upsert_def split: sum.splits)
  have "I c1" using CacheEntryByID_inv[OF step assms(2) a] .
  then have "I c2" using CacheEntryByID_all_inv[OF step _ b] by simp
  then show ?thesis
    using d CacheEntryBySubTree_inv[OF step]
    by (cases "Sub m") auto
qed

lemma from_db_or_old_step:
  "\<forall>c r c'. from_db_or_old db c0 c \<and> row_image db r \<and> CacheEntry_upsert pj c r = Inr c'
     \<longrightarrow> from_db_or_old db c0 c'"
proof (intro allI impI, elim conjE)
  fix c r c'
  assume p: "from_db_or_old db c0 c" and img: "row_image db r"
    and u: "CacheEntry_upsert pj c r = Inr c'"
  from u obtain e where c': "c' = cache_upsert e c" and e: "c_ID e = ID r" "c_Version e = Version r"
    by (auto simp: CacheEntry_upsert_def split: sum.splits)
  have "\<exists>r0\<in>set (rows db). ID r0 = c_ID e \<and> Version r0 = c_Version e"
    using img e by (auto simp: row_image_def)
  then show "from_db_or_old db c0 c'"
    using p set_cache_upsert[of e c] unfolding c' from_db_or_old_def by blast
qed

lemma from_db_or_old_refl: "from_db_or_old db c0 c0"
  by (auto simp: from_db_or_old_def)

lemma DeleteCacheEntry_from_db_or_old:
  assumes "from_db_or_old db c0 c" "DeleteCacheEntry pj db committed c i p acc = Inr (n, c')"
  shows "from_db_or_old db c0 c'"
proof -
  let ?c1 = "filter (\<lambda>e. c_ID e \<noteq> i) c"
  let ?c2 = "if list_ex (\<lambda>e. c_ParentID e = p) ?c1 then ?c1
             else map (\<lambda>e. if c_ID e = p then e\<lparr>c_IsContainer := False, c_Path := []\<rparr> else e) ?c1"
  have p1: "from_db_or_old db c0 ?c1"
    using assms(1) by (auto simp: from_db_or_old_def)
  have p2: "from_db_or_old db c0 ?c2"
  proof (cases "list_ex (\<lambda>e. c_ParentID e = p) ?c1")
    case True
    then show ?thesis using p1 by simp
  next
    case False
    have "from_db_or_old db c0
            (map (\<lambda>e. if c_ID e = p then e\<lparr>c_IsContainer := False, c_Path := []\<rparr> else e) ?c1)"
      unfolding from_db_or_old_def
    proof
      fix e' assume "e' \<in> set (map (\<lambda>e. if c_ID e = p then e\<lparr>c_IsContainer := False, c_Path := []\<rparr> else e) ?c1)"
      then obtain x where x: "x \<in> set ?c1" "c_ID e' = c_ID x" "c_Version e' = c_Version x"
        by (auto split: if_splits)
      then show "(\<exists>e\<in>set c0. c_ID e = c_ID e' \<and> c_Version e = c_Version e')
                 \<or> (\<exists>r\<in>set (rows db). ID r = c_ID e' \<and> Version r = c_Version e')"
        using p1 unfolding from_db_or_old_def by metis
    qed
    with False show ?thesis by simp
  qed
  from assms(2) have "c' = ?c2 \<or> (\<exists>v. CacheAssociation pj db ?c2 v = Inr c')"
    by (auto simp: DeleteCacheEntry_def Let_def split: if_splits option.splits sum.splits)
  then show ?thesis
    using p2 CacheAssociation_inv[OF from_db_or_old_step, of db c0 ?c2 pj] by blast
qed

lemma OnUpdate_from_db_or_old: "from_db_or_old db c (snd (OnUpdate pj db c m))"
proof -
  have a: "\<And>c'. OnUpdate_upsert pj db c m = Inr c' \<Longrightarrow> from_db_or_old db c c'"
    using OnUpdate_upsert_inv[OF from_db_or_old_step from_db_or_old_refl] by blast
  have b: "\<And>p n c'. DeleteCacheEntry pj db c c (m_ID m) p True = Inr (n, c') \<Longrightarrow> from_db_or_old db c c'"
    using DeleteCacheEntry_from_db_or_old[OF from_db_or_old_refl] by blast
  show ?thesis
    unfolding OnUpdate_def
    using a b from_db_or_old_refl[of db c]
    by (auto split: sum.splits prod.splits)
qed

lemma distinct_map_eq:
  "distinct (map f xs) \<Longrightarrow> x \<in> set xs \<Longrightarrow> y \<in> set xs \<Longrightarrow> f x = f y \<Longrightarrow> x = y"
  by (meson distinct_map inj_onD)

lemma rev_monotone:
  assumes "from_db_or_old db c0 c'" "distinct (map c_ID c0)" "cache_behind db c0"
    "cache_find c0 i = Some e" "cache_find c' i = Some e'"
  shows "c_Version e \<le> c_Version e'"
proof -
  have e: "c_ID e = i" "e \<in> set c0" using assms(4) find_SomeD[of _ c0 e] by (auto simp: cache_find_def)
  have e': "c_ID e' = i" "e' \<in> set c'" using assms(5) find_SomeD[of _ c' e'] by (auto simp: cache_find_def)
  from assms(1) e'(2) consider
    (old) e2 where "e2 \<in> set c0" "c_ID e2 = c_ID e'" "c_Version e2 = c_Version e'"
    | (db) r where "r \<in> set (rows db)" "ID r = c_ID e'" "Version r = c_Version e'"
    unfolding from_db_or_old_def by blast
  then show ?thesis
  proof cases
    case old
    then have "e2 = e" using distinct_map_eq[OF assms(2) old(1) e(2)] e(1) e'(1) by simp
    then show ?thesis using old by simp
  next
    case db
    have "c_Version e \<le> Version r \<or> ID r \<noteq> c_ID e"
      using assms(3) e(2) db(1) by (auto simp: cache_behind_def list_all_iff)
    then show ?thesis
      using db e(1) e'(1) by auto
  qed
qed


lemma holds_rev_step:
  assumes pk: "distinct (map ID (rows db))" and g: "db_get db i = Inr r0"
  shows "\<forall>c r c'. holds_rev i (Version r0) c \<and> row_image db r \<and> CacheEntry_upsert pj c r = Inr c'
           \<longrightarrow> holds_rev i (Version r0) c'"
proof (intro allI impI, elim conjE)
  fix c r c'
  assume h: "holds_rev i (Version r0) c" and img: "row_image db r"
    and u: "CacheEntry_upsert pj c r = Inr c'"
  have r0: "ID r0 = i" "r0 \<in> set (rows db)"
    using g find_SomeD[of "\<lambda>e. ID e = i" "rows db" r0]
    by (auto simp: db_get_def split: option.splits)
  show "holds_rev i (Version r0) c'"
  proof (cases "ID r = i")
    case True
    from img obtain r1 where r1: "r1 \<in> set (rows db)" "ID r = ID r1" "Version r = Version r1"
      by (auto simp: row_image_def)
    have "ID r1 = ID r0" using r1(2) True r0(1) by simp
    then have "r1 = r0" by (rule distinct_map_eq[OF pk r1(1) r0(2)])
    then have v: "Version r = Version r0" using r1(3) by simp
    from CacheEntry_upsert_same[OF u] obtain e where "cache_find c' (ID r) = Some e"
      "c_Version e = Version r" by blast
    then show ?thesis
      unfolding holds_rev_def using True v by metis
  next
    case False
    then show ?thesis
      using CacheEntry_upsert_other[OF u False] h by (simp add: holds_rev_def)
  qed
qed

lemma OnUpdate_upsert_holds_rev:
  assumes pk: "distinct (map ID (rows db))" and ok: "OnUpdate_upsert pj db c m = Inr c'"
  shows "\<exists>r e'. db_get db (m_ID m) = Inr r \<and> cache_find c' (m_ID m) = Some e'
           \<and> c_Version e' = Version r"
proof -
  from ok obtain c1 c2 where a: "CacheEntryByID pj db c (m_ID m) (Association m) = Inr c1"
    and b: "CacheEntryByID_all pj db c1 (Dependant m) = Inr c2"
    and d: "(if Sub m then CacheEntryBySubTree pj db c2 (m_ID m) else Inr c2) = Inr c'"
    by (auto simp: OnUpdate_upsert_def split: sum.splits)
  from a obtain r c0 where g: "db_get db (m_ID m) = Inr r"
    and u: "CacheEntry_upsert pj c r = Inr c0"
    and rest: "(if Association m then CacheAssociation pj db c0 (assoc_ids (AttrsOrig r))
                else Inr c0) = Inr c1"
    by (auto simp: CacheEntryByID_def split: sum.splits)
  note step = holds_rev_step[OF pk g, of pj]
  have i: "ID r = m_ID m" using db_get_row_image[OF g] by simp
  have h0: "holds_rev (m_ID m) (Version r) c0"
    using CacheEntry_upsert_same[OF u] i by (simp add: holds_rev_def)
  have h1: "holds_rev (m_ID m) (Version r) c1"
    using rest h0 CacheAssociation_inv[OF step]
    by (cases "Association m") auto
  have h2: "holds_rev (m_ID m) (Version r) c2"
    using CacheEntryByID_all_inv[OF step h1 b] .
  have "holds_rev (m_ID m) (Version r) c'"
    using d h2 CacheEntryBySubTree_inv[OF step]
    by (cases "Sub m") auto
  then show ?thesis using g by (auto simp: holds_rev_def)
qed

text \<open>
  C1 (as amended): the guard of \<^verbatim>\<open>OnUpdate\<close> passes when the entry is absent, when
  the message's revision exceeds the cached one, or when the message's revision is
  negative and the cached one positive. For an add, mod or modrdn message a failed
  guard leaves the cache unchanged, and after a passed guard a successful call has
  stored the durable row's revision for the id. For every message, as long as no
  cached revision is ahead of the durable store, the revision of an id that is cached
  before and after the call does not decrease.
\<close>

theorem OnUpdate_rev_guard:
  assumes pk: "distinct (map ID (rows db))" and cpk: "distinct (map c_ID cache)"
    and behind: "cache_behind db cache"
  shows "doUpdate cache m =
           (case cache_find cache (m_ID m) of
              Some dest \<Rightarrow> c_Version dest < Rev m \<or> (Rev m < 0 \<and> 0 < c_Version dest)
            | None \<Rightarrow> True)
         \<and> ((m_IsAdd m \<or> m_IsMod m) \<and> \<not> doUpdate cache m \<longrightarrow>
              OnUpdate pj db cache m = (None, cache))
         \<and> ((m_IsAdd m \<or> m_IsMod m) \<and> doUpdate cache m \<and> fst (OnUpdate pj db cache m) = None \<longrightarrow>
              (\<exists>r e'. db_get db (m_ID m) = Inr r
                 \<and> cache_find (snd (OnUpdate pj db cache m)) (m_ID m) = Some e'
                 \<and> c_Version e' = Version r))
         \<and> (\<forall>i e e'. cache_find cache i = Some e
                 \<and> cache_find (snd (OnUpdate pj db cache m)) i = Some e' \<longrightarrow>
               c_Version e \<le> c_Version e')"
proof (intro conjI impI allI)
  show "doUpdate cache m =
           (case cache_find cache (m_ID m) of
              Some dest \<Rightarrow> c_Version dest < Rev m \<or> (Rev m < 0 \<and> 0 < c_Version dest)
            | None \<Rightarrow> True)"
    by (auto simp: doUpdate_def shouldVersionUpdated_def split: option.splits)
next
  assume "(m_IsAdd m \<or> m_IsMod m) \<and> \<not> doUpdate cache m"
  moreover have "\<not> (m_IsDel m \<and> (m_IsAdd m \<or> m_IsMod m))"
    by (auto simp: m_IsDel_def m_IsAdd_def m_IsMod_def NotifyAdd_def NotifyMod_def
        NotifyModRDN_def NotifyDel_def)
  ultimately show "OnUpdate pj db cache m = (None, cache)"
    by (auto simp: OnUpdate_def)
next
  assume a: "(m_IsAdd m \<or> m_IsMod m) \<and> doUpdate cache m \<and> fst (OnUpdate pj db cache m) = None"
  then obtain c' where ok: "OnUpdate_upsert pj db cache m = Inr c'"
    and res: "OnUpdate pj db cache m = (None, c')"
    by (auto simp: OnUpdate_def split: sum.splits)
  show "\<exists>r e'. db_get db (m_ID m) = Inr r
          \<and> cache_find (snd (OnUpdate pj db cache m)) (m_ID m) = Some e'
          \<and> c_Version e' = Version r"
    using OnUpdate_upsert_holds_rev[OF pk ok] res by simp
next
  fix i e e'
  assume "cache_find cache i = Some e \<and> cache_find (snd (OnUpdate pj db cache m)) i = Some e'"
  then show "c_Version e \<le> c_Version e'"
    using rev_monotone[OF OnUpdate_from_db_or_old cpk behind] by blast
qed


lemmas ex_store_defs =
  ex_db_def ex_cache_def ex_msg_def ex_pj_def row0_def row1_def
  NotifyAdd_def NotifyMod_def NotifyModRDN_def NotifyDel_def

lemmas OnUpdate_defs =
  OnUpdate_def OnUpdate_upsert_def doUpdate_def shouldVersionUpdated_def
  m_IsAdd_def m_IsMod_def m_IsDel_def cache_find_def cache_upsert_def
  CacheEntryByID_def CacheEntry_upsert_def db_get_def DeleteCacheEntry_def
  CacheAssociation_def

lemma ex_OnUpdate_wrap:
  "OnUpdate ex_pj ex_db ex_cache (ex_msg NotifyMod (- 1))
   = (None, snd (OnUpdate ex_pj ex_db ex_cache (ex_msg NotifyMod (- 1))))
   \<and> map_option c_Version (cache_find (snd (OnUpdate ex_pj ex_db ex_cache (ex_msg NotifyMod (- 1)))) 1)
     = Some 6"
  by (simp add: ex_store_defs OnUpdate_defs)

lemma ex_OnUpdate_del:
  "cache_find (snd (OnUpdate ex_pj ex_db ex_cache (ex_msg NotifyDel 6))) 1 = None"
  by (simp add: ex_store_defs OnUpdate_defs)

text \<open>
  C1 (as stated) fails: with revision 5 cached, a mod message with revision \<open>-1\<close>
  re-projects the entry although its revision does not exceed 5, and a del message
  with revision 6 removes the entry instead of upserting it.
\<close>

theorem OnUpdate_guard_counterexample:
  "map_option c_Version (cache_find ex_cache 1) = Some 5
   \<and> \<not> spec_should_upsert ex_cache (ex_msg NotifyMod (- 1))
   \<and> fst (OnUpdate ex_pj ex_db ex_cache (ex_msg NotifyMod (- 1))) = None
   \<and> map_option c_Version
        (cache_find (snd (OnUpdate ex_pj ex_db ex_cache (ex_msg NotifyMod (- 1)))) 1) = Some 6
   \<and> spec_should_upsert ex_cache (ex_msg NotifyDel 6)
   \<and> fst (OnUpdate ex_pj ex_db ex_cache (ex_msg NotifyDel 6)) = None
   \<and> cache_find (snd (OnUpdate ex_pj ex_db ex_cache (ex_msg NotifyDel 6))) 1 = None"
  by (simp add: ex_store_defs OnUpdate_defs spec_should_upsert_def)

text \<open>
  Witness for C1: with revision 5 cached and revision 6 stored, a mod message with
  revision 5 changes nothing and one with revision 6 brings the cache to revision 6.
\<close>

theorem OnUpdate_rev_guard_witness:
  "distinct (map ID (rows ex_db)) \<and> distinct (map c_ID ex_cache) \<and> cache_behind ex_db ex_cache
   \<and> m_IsMod (ex_msg NotifyMod 5) \<and> \<not> doUpdate ex_cache (ex_msg NotifyMod 5)
   \<and> OnUpdate ex_pj ex_db ex_cache (ex_msg NotifyMod 5) = (None, ex_cache)
   \<and> m_IsMod (ex_msg NotifyMod 6) \<and> doUpdate ex_cache (ex_msg NotifyMod 6)
   \<and> fst (OnUpdate ex_pj ex_db ex_cache (ex_msg NotifyMod 6)) = None
   \<and> (\<exists>e e'. cache_find ex_cache 1 = Some e
         \<and> cache_find (snd (OnUpdate ex_pj ex_db ex_cache (ex_msg NotifyMod 6))) 1 = Some e'
         \<and> c_Version e' = 6 \<and> c_Version e \<le> c_Version e')"
proof -
  have pk: "distinct (map ID (rows ex_db))" by (simp add: ex_store_defs)
  have cpk: "distinct (map c_ID ex_cache)" by (simp add: ex_store_defs)
  have behind: "cache_behind ex_db ex_cache" by (simp add: cache_behind_def ex_store_defs)
  have m5: "m_IsMod (ex_msg NotifyMod 5)" "\<not> doUpdate ex_cache (ex_msg NotifyMod 5)"
    by (simp_all add: ex_store_defs OnUpdate_defs)
  have m6: "m_IsMod (ex_msg NotifyMod 6)" "doUpdate ex_cache (ex_msg NotifyMod 6)"
    "fst (OnUpdate ex_pj ex_db ex_cache (ex_msg NotifyMod 6)) = None"
    by (simp_all add: ex_store_defs OnUpdate_defs)
  have g: "db_get ex_db 1 = Inr row1" by (simp add: db_get_def ex_db_def row0_def row1_def)
  have v: "Version row1 = 6" by (simp add: row1_def)
  have c: "\<exists>e. cache_find ex_cache 1 = Some e" by (simp add: cache_find_def ex_cache_def)
  note t5 = OnUpdate_rev_guard[OF pk cpk behind, of "ex_msg NotifyMod 5" ex_pj]
  note t6 = OnUpdate_rev_guard[OF pk cpk behind, of "ex_msg NotifyMod 6" ex_pj]
  have r5: "OnUpdate ex_pj ex_db ex_cache (ex_msg NotifyMod 5) = (None, ex_cache)"
    using t5 m5 by blast
  from t6 m6 obtain r e' where
    "db_get ex_db (m_ID (ex_msg NotifyMod 6)) = Inr r"
    "cache_find (snd (OnUpdate ex_pj ex_db ex_cache (ex_msg NotifyMod 6))) (m_ID (ex_msg NotifyMod 6)) = Some e'"
    "c_Version e' = Version r"
    by blast
  then have e': "cache_find (snd (OnUpdate ex_pj ex_db ex_cache (ex_msg NotifyMod 6))) 1 = Some e'"
    "c_Version e' = 6"
    using g v by (simp_all add: ex_msg_def)
  from c obtain e where e: "cache_find ex_cache 1 = Some e" by blast
  have "c_Version e \<le> c_Version e'" using t6 e e'(1) by blast
  then show ?thesis using pk cpk behind m5 m6 r5 e e' by blast
qed

section \<open>Bind reads only\<close>

text \<open>
  C10: on every path \<^verbatim>\<open>Bind\<close> leaves the repository (the durable store and the
  cache) as it found it, and when the bind DN does not resolve through the cache
  (\<^verbatim>\<open>findEntryID\<close> reports \<^verbatim>\<open>NoSuchObject\<close>) it returns
  \<^verbatim>\<open>InvalidCredentials\<close>.
\<close>

theorem Bind_no_store_write:
  "snd (Bind env r dn callback) = r
   \<and> (findEntryID (r_cache r) (SuffixDN r) dn = Inl NoSuchObject \<longrightarrow>
        fst (Bind env r dn callback) = Some InvalidCredentials)"
  by (auto simp: Bind_def is_Panic_def split: sum.splits option.splits)

lemma lower_ex:
  "ToLower ''cn'' = ''cn''" "ToLower ''dc'' = ''dc''" "ToLower ''nobody'' = ''nobody''"
  "ToLower ''example'' = ''example''"
  by code_simp+

lemma ex_nobody_unresolved:
  "findEntryID (r_cache ex_repo) (SuffixDN ex_repo) dn_nobody = Inl NoSuchObject"
  by (simp add: findEntryID_def rdnNorms_of_def IsSuffix_def DN_Equal_def dn_nobody_def
      dn_suffix_def ex_repo_def LevelWithoutSuffix_def RDNNormStr_def ParentDN_def
      rdn_NormStr_def atv_def lower_ex ex_cache_def eval_nat_numeral)

text \<open>
  Witness for C10: binding as \<^verbatim>\<open>cn=nobody,dc=example\<close>, which the cache does not
  hold, gives \<^verbatim>\<open>InvalidCredentials\<close> and the same repository.
\<close>

theorem Bind_no_store_write_witness:
  "findEntryID (r_cache ex_repo) (SuffixDN ex_repo) dn_nobody = Inl NoSuchObject
   \<and> Bind ex_env ex_repo dn_nobody (\<lambda>fc. None) = (Some InvalidCredentials, ex_repo)"
  using Bind_no_store_write[of ex_env ex_repo dn_nobody "\<lambda>fc. None"] ex_nobody_unresolved
  by (simp add: prod_eq_iff)

section \<open>Insert promotes a leaf parent\<close>

lemma find_map_keep:
  "(\<And>e. ID (g e) = ID e) \<Longrightarrow>
   find (\<lambda>e. ID e = i) (map g rs) = map_option g (find (\<lambda>e. ID e = i) rs)"
  by (induction rs) auto

lemma db_get_sql_update:
  assumes ok: "sql_update pred upd db = Inr (n, db')"
    and keep: "\<And>e e'. upd e = Some e' \<Longrightarrow> ID e' = ID e"
    and g: "db_get db i = Inr e"
  shows "\<exists>e'. db_get db' i = Inr e' \<and> (if pred e then upd e = Some e' else e' = e)"
proof -
  let ?g = "\<lambda>e. if pred e then (case upd e of Some e' \<Rightarrow> e' | None \<Rightarrow> e) else e"
  have rows': "rows db' = map ?g (rows db)"
    and noNone: "\<not> list_ex (\<lambda>e. pred e \<and> upd e = None) (rows db)"
    using ok by (auto simp: sql_update_def Let_def split: if_splits)
  have idg: "\<And>e. ID (?g e) = ID e"
    using keep by (auto split: option.splits)
  have f: "find (\<lambda>e. ID e = i) (rows db) = Some e"
    using g by (simp add: db_get_def split: option.splits)
  then have mem: "e \<in> set (rows db)"
    using find_SomeD by fastforce
  have "find (\<lambda>e. ID e = i) (rows db') = Some (?g e)"
    unfolding rows' using find_map_keep[of ?g i "rows db", OF idg] f by simp
  then have "db_get db' i = Inr (?g e)" by (simp add: db_get_def)
  moreover have "pred e \<Longrightarrow> upd e \<noteq> None"
    using noNone mem by (auto simp: list_ex_iff)
  ultimately show ?thesis by (auto split: option.splits)
qed


lemma bump_rev_ID: "bump_rev e = Some e' \<Longrightarrow> ID e' = ID e"
  by (auto simp: bump_rev_def split: if_splits)

lemma bump_rev_Some: "bump_rev e = Some e' \<Longrightarrow> e' = e\<lparr>Version := Version e + 1\<rparr>"
  by (auto simp: bump_rev_def split: if_splits)

lemma db_get_updateContainer:
  assumes "updateContainer db i rv path c = Inr (n, db')" "db_get db j = Inr e"
  shows "\<exists>e'. db_get db' j = Inr e' \<and>
           (if ID e = i \<and> Version e = rv \<and> IsContainer e \<noteq> c
            then e' = e\<lparr>Version := Version e + 1, Path := path, IsContainer := c\<rparr>
            else e' = e)"
proof -
  let ?pred = "\<lambda>e. ID e = i \<and> Version e = rv \<and> IsContainer e \<noteq> c"
  let ?upd = "\<lambda>e. map_option (\<lambda>e'. e'\<lparr>Path := path, IsContainer := c\<rparr>) (bump_rev e)"
  have u: "sql_update ?pred ?upd db = Inr (n, db')"
    using assms(1) by (simp add: updateContainer_def)
  have keep: "\<And>e e'. ?upd e = Some e' \<Longrightarrow> ID e' = ID e"
    using bump_rev_ID by fastforce
  from db_get_sql_update[OF u keep assms(2)]
  obtain e' where g: "db_get db' j = Inr e'"
    and c: "if ?pred e then ?upd e = Some e' else e' = e"
    by blast
  show ?thesis
  proof (cases "?pred e")
    case True
    with c obtain e1 where "bump_rev e = Some e1" "e' = e1\<lparr>Path := path, IsContainer := c\<rparr>"
      by auto
    then have "e' = e\<lparr>Version := Version e + 1, Path := path, IsContainer := c\<rparr>"
      using bump_rev_Some by fastforce
    with g True show ?thesis by (intro exI[of _ e']) (simp only: if_True simp_thms)
  next
    case False
    then have "e' = e" using c by (simp only: if_False)
    with g False show ?thesis by (intro exI[of _ e']) (simp only: if_False simp_thms)
  qed
qed

lemma db_get_addMemberOf:
  assumes "addMemberOf db ids i = Inr db'" "db_get db j = Inr e"
  shows "\<exists>e'. db_get db' j = Inr e' \<and> IsContainer e' = IsContainer e \<and> Path e' = Path e \<and>
           (if Some (ID e) \<in> set (map ParseInt ids)
            then Version e' = Version e + 1 else e' = e)"
proof (cases "length ids = 0")
  case True
  then show ?thesis using assms by (simp add: addMemberOf_def)
next
  case False
  let ?pred = "\<lambda>e. Some (ID e) \<in> set (map ParseInt ids)"
  let ?upd = "\<lambda>e. map_option
                 (\<lambda>e'. e'\<lparr>AttrsOrig := (AttrsOrig e')(''memberOf'' \<mapsto>
                           case_option [] id (AttrsOrig e' ''memberOf'') @ [FormatInt i])\<rparr>)
                 (bump_rev e)"
  have "\<exists>n. sql_update ?pred ?upd db = Inr (n, db')"
  proof (cases "sql_update ?pred ?upd db")
    case (Inl x)
    then show ?thesis using assms(1) False by (simp add: addMemberOf_def split: if_splits)
  next
    case (Inr y)
    then show ?thesis using assms(1) False
      by (cases y) (simp add: addMemberOf_def split: if_splits)
  qed
  then obtain n where u: "sql_update ?pred ?upd db = Inr (n, db')" by blast
  have keep: "\<And>e e'. ?upd e = Some e' \<Longrightarrow> ID e' = ID e"
    using bump_rev_ID by fastforce
  from db_get_sql_update[OF u keep assms(2)]
  obtain e' where g: "db_get db' j = Inr e'"
    and c: "if ?pred e then ?upd e = Some e' else e' = e"
    by blast
  show ?thesis
  proof (cases "?pred e")
    case True
    with c obtain e1 where e1: "bump_rev e = Some e1"
      "e' = e1\<lparr>AttrsOrig := (AttrsOrig e1)(''memberOf'' \<mapsto>
                           case_option [] id (AttrsOrig e1 ''memberOf'') @ [FormatInt i])\<rparr>"
      by auto
    have "e1 = e\<lparr>Version := Version e + 1\<rparr>" using bump_rev_Some[OF e1(1)] .
    then have "IsContainer e' = IsContainer e \<and> Path e' = Path e \<and> Version e' = Version e + 1"
      using e1(2) by simp
    with g True show ?thesis by (intro exI[of _ e']) (simp only: if_True simp_thms)
  next
    case False
    then have "e' = e" using c by (simp only: if_False)
    with g False show ?thesis by (intro exI[of _ e']) (simp only: if_False simp_thms)
  qed
qed

lemma db_get_insertEntry:
  assumes "insertEntry env db uuid pid rn ro attrs = Inr (newID, db')" "db_get db j = Inr e"
  shows "db_get db' j = Inr e"
proof -
  from assms(1) obtain new where "rows db' = rows db @ [new]"
    by (auto simp: insertEntry_def Let_def split: option.splits if_splits)
  moreover have "find (\<lambda>e. ID e = j) (rows db) = Some e"
    using assms(2) by (simp add: db_get_def split: option.splits)
  ultimately show ?thesis
    by (simp add: db_get_def find_snoc)
qed

lemma db_get_notify: "db_get (notify db m) j = db_get db j"
  by (simp add: db_get_def notify_def)

lemma db_get_ID: "db_get db i = Inr e \<Longrightarrow> ID e = i"
  by (auto simp: db_get_def split: option.splits dest: find_Some_iff[THEN iffD1])

text \<open>
  C5 (as amended): a successful \<^verbatim>\<open>insertInternal\<close> under a parent P emits an add
  message. When P was not a container, the message's dependant list is \<open>[P.id]\<close> and
  P's row has become a container whose path is its parent's path followed by its id;
  its revision has grown by one, and by one more when the new entry names P itself as
  a member (\<^verbatim>\<open>addMemberOf\<close> then extends P's \<^verbatim>\<open>memberOf\<close>). When P was a
  container, the dependant list is empty and P's row is unchanged, unless P is named
  as a member, in which case its revision has grown by one and its container flag and
  path are kept.
\<close>

theorem insertInternal_promotes_parent:
  assumes ok: "insertInternal env cache db inp = Inr (db', Some m)"
    and par: "in_ParentDN inp = Some parentDN"
    and pid: "findEntryID cache (env_SuffixDN env) parentDN = Inr pid"
    and p: "db_get db pid = Inr p"
    and conv: "convAssocs env cache (in_attrsOrig inp) = Inr (attrs, mids)"
  shows "Op m = NotifyAdd \<and>
         (\<exists>p'. db_get db' pid = Inr p' \<and>
            (\<not> IsContainer p \<longrightarrow>
               Dependant m = [pid] \<and> IsContainer p' \<and> Path p' = parent_path db p @ [pid] \<and>
               Version p' = Version p + 1
                            + (if Some pid \<in> set (map ParseInt mids) then 1 else 0)) \<and>
            (IsContainer p \<longrightarrow>
               Dependant m = [] \<and> IsContainer p' \<and> Path p' = Path p \<and>
               (if Some pid \<in> set (map ParseInt mids) then Version p' = Version p + 1
                else p' = p)))"
proof -
  have idp: "ID p = pid" using db_get_ID[OF p] .
  define s3 where "s3 =
         (if \<not> IsContainer p
          then (case updateContainer db (ID p) (Version p) (parent_path db p @ [ID p]) True of
                  Inl e \<Rightarrow> Inl e
                | Inr (updated, db1) \<Rightarrow> Inr (updated = 1, db1, [ID p]))
          else Inr (True, db, []))"
  have ok1: "(case s3 of
        Inl e \<Rightarrow> Inl e
      | Inr (ok, db1, dep) \<Rightarrow>
          if \<not> ok then Inr (db1, None)
          else
     (case case_option [] id (attrs ''entryUUID'') of
        [] \<Rightarrow> Inl (Panic ''index out of range'')
      | uuid # us \<Rightarrow>
     (case insertEntry env db1 uuid pid (in_RDNNorm inp) (in_RDNOrig inp) attrs of
        Inl e \<Rightarrow>
          if isForeignKeyError e then Inl (RetryError ''23503'')
          else if isDuplicateKeyError e then Inl AlreadyExists
          else Inl e
      | Inr (newID, db2) \<Rightarrow>
     (case addMemberOf db2 mids newID of
        Inl e \<Rightarrow> Inl e
      | Inr db3 \<Rightarrow>
          let m = \<lparr>Issuer = ServerID env, m_ID = newID, Op = NotifyAdd, Rev = 1,
                   Association = (length mids > 0), Dependant = dep, Sub = False\<rparr>
          in Inr (notify db3 m, Some m))))) = Inr (db', Some m)"
    using ok unfolding insertInternal_def s3_def
    by (simp only: par pid p conv option.case sum.case prod.case)
  then obtain b db1 dep where s3v: "s3 = Inr (b, db1, dep)"
    by (cases s3) auto
  have b: "b" using ok1 s3v by (cases b) auto
  from ok1 s3v b obtain uuid us where uu: "case_option [] id (attrs ''entryUUID'') = uuid # us"
    by (cases "case_option [] id (attrs ''entryUUID'')") auto
  from ok1 s3v b uu obtain newID db2 where
    s5: "insertEntry env db1 uuid pid (in_RDNNorm inp) (in_RDNOrig inp) attrs = Inr (newID, db2)"
    by (cases "insertEntry env db1 uuid pid (in_RDNNorm inp) (in_RDNOrig inp) attrs")
       (auto split: if_splits)
  from ok1 s3v b uu s5 obtain db3 where s6: "addMemberOf db2 mids newID = Inr db3"
    by (cases "addMemberOf db2 mids newID") auto
  from ok1 s3v b uu s5 s6 have
    m: "m = \<lparr>Issuer = ServerID env, m_ID = newID, Op = NotifyAdd, Rev = 1,
                 Association = (length mids > 0), Dependant = dep, Sub = False\<rparr>"
    and db': "db' = notify db3 m"
    by (auto simp: Let_def)
  have s3: "(if \<not> IsContainer p
          then (case updateContainer db (ID p) (Version p) (parent_path db p @ [ID p]) True of
                  Inl e \<Rightarrow> Inl e
                | Inr (updated, db1) \<Rightarrow> Inr (updated = 1, db1, [ID p]))
          else Inr (True, db, [])) = Inr (True, db1, dep)"
    using s3v b by (simp add: s3_def)
  have opm: "Op m = NotifyAdd" using m by simp
  obtain p1 where p1: "db_get db1 pid = Inr p1"
    and p1c: "\<not> IsContainer p \<Longrightarrow>
                dep = [pid] \<and> p1 = p\<lparr>Version := Version p + 1,
                                       Path := parent_path db p @ [pid], IsContainer := True\<rparr>"
    and p1n: "IsContainer p \<Longrightarrow> dep = [] \<and> p1 = p"
  proof (cases "IsContainer p")
    case True
    with s3 p that show ?thesis by simp
  next
    case False
    with s3 obtain n where u: "updateContainer db (ID p) (Version p) (parent_path db p @ [ID p]) True
                               = Inr (n, db1)" and d: "dep = [ID p]"
      by (auto split: sum.splits prod.splits)
    from db_get_updateContainer[OF u p] False idp
    obtain e' where "db_get db1 pid = Inr e'"
      "e' = p\<lparr>Version := Version p + 1, Path := parent_path db p @ [pid], IsContainer := True\<rparr>"
      by auto
    with False d idp that show ?thesis by simp
  qed
  have p2: "db_get db2 pid = Inr p1" using db_get_insertEntry[OF s5 p1] .
  from db_get_addMemberOf[OF s6 p2] obtain p3 where p3: "db_get db3 pid = Inr p3"
    "IsContainer p3 = IsContainer p1" "Path p3 = Path p1"
    "if Some (ID p1) \<in> set (map ParseInt mids) then Version p3 = Version p1 + 1 else p3 = p1"
    by blast
  have idp1: "ID p1 = pid" using db_get_ID[OF p1] .
  have g': "db_get db' pid = Inr p3" using p3(1) by (simp add: db' db_get_notify)
  have depm: "Dependant m = dep" using m by simp
  show ?thesis
  proof (cases "IsContainer p")
    case True
    with p1n have "dep = []" "p1 = p" by simp_all
    with True g' p3 idp1 opm depm show ?thesis by (auto split: if_splits)
  next
    case False
    with p1c have "dep = [pid]"
      "p1 = p\<lparr>Version := Version p + 1, Path := parent_path db p @ [pid], IsContainer := True\<rparr>"
      by simp_all
    with False g' p3 idp1 opm depm show ?thesis by (auto split: if_splits)
  qed
qed


lemma ex_int_strings:
  "FormatInt 1 = ''1''" "ParseInt ''1'' = Some 1" "FormatInt 2 = ''2''"
  by code_simp+

lemma ex_lower:
  "ToLower ''dc'' = ''dc''" "ToLower ''example'' = ''example''"
  by code_simp+

lemma ex_find_suffix: "findEntryID ex_cache dn_suffix dn_suffix = Inr 1"
  by (simp add: findEntryID_def rdnNorms_of_def IsSuffix_def DN_Equal_def dn_suffix_def
      RDNNormStr_def rdn_NormStr_def atv_def ex_lower ex_cache_def)

lemma ex_get_parent: "db_get ex_db 1 = Inr row1"
  by (simp add: db_get_def ex_db_def row0_def row1_def)

lemma ex_conv_grp:
  "convAssocs ex_renv ex_cache (in_attrsOrig in_grp)
   = Inr ((in_attrsOrig in_grp)(''member'' \<mapsto> [''1'']), [''1''])"
  by (simp add: convAssocs_def convAssoc_def in_grp_def ex_renv_def ex_find_suffix
      ex_int_strings)

lemma ex_conv_alice:
  "convAssocs ex_renv ex_cache (in_attrsOrig in_alice) = Inr (in_attrsOrig in_alice, [])"
  by (simp add: convAssocs_def convAssoc_def in_alice_def)

lemmas ex_insert_defs =
  insertInternal_def updateContainer_def sql_update_def bump_rev_def INT64_MAX_def
  constraints_ok_def parent_path_def insertEntry_def addMemberOf_def notify_def
  isForeignKeyError_def isDuplicateKeyError_def PgError_def rev_of_def

lemma ex_fields:
  "in_ParentDN in_grp = Some dn_suffix" "in_ParentDN in_alice = Some dn_suffix"
  "env_SuffixDN ex_renv = dn_suffix" "ServerID ex_renv = ''server-1''"
  "in_RDNNorm in_grp = ''cn=grp''" "in_RDNOrig in_grp = ''cn=grp''"
  "in_RDNNorm in_alice = ''cn=alice''" "in_RDNOrig in_alice = ''cn=alice''"
  "pg_uuid ex_renv = Some"
  by (simp_all add: in_grp_def in_alice_def ex_renv_def)

lemma ex_uuid:
  "in_attrsOrig in_grp ''entryUUID'' = Some [''33333333-3333-3333-3333-333333333333'']"
  "in_attrsOrig in_alice ''entryUUID'' = Some [''22222222-2222-2222-2222-222222222222'']"
  by (simp_all add: in_grp_def in_alice_def)

lemma ex_insert_grp:
  "map_sum id (\<lambda>(db', m). (rev_of db' 1, map_option Dependant m, map_option m_ID m))
     (insertInternal ex_renv ex_cache ex_db in_grp) = Inr (Some 8, Some [1], Some 2)"
  apply (simp add: insertInternal_def ex_fields ex_find_suffix ex_get_parent ex_conv_grp ex_uuid)
  apply (simp add: updateContainer_def sql_update_def bump_rev_def INT64_MAX_def
      constraints_ok_def parent_path_def insertEntry_def addMemberOf_def notify_def
      isForeignKeyError_def isDuplicateKeyError_def PgError_def rev_of_def
      ex_db_def row0_def row1_def ex_int_strings ex_fields ex_conv_grp ex_uuid Let_def)
  done

lemma ex_insert_alice:
  "map_sum id (\<lambda>(db', m). (rev_of db' 1, map_option Dependant m, map_option m_ID m))
     (insertInternal ex_renv ex_cache ex_db in_alice) = Inr (Some 7, Some [1], Some 2)"
  apply (simp add: insertInternal_def ex_fields ex_find_suffix ex_get_parent ex_conv_alice ex_uuid)
  apply (simp add: updateContainer_def sql_update_def bump_rev_def INT64_MAX_def
      constraints_ok_def parent_path_def insertEntry_def addMemberOf_def notify_def
      isForeignKeyError_def isDuplicateKeyError_def PgError_def rev_of_def
      ex_db_def row0_def row1_def ex_int_strings ex_fields ex_conv_alice ex_uuid Let_def)
  done


text \<open>
  C5 (as stated) fails: inserting \<^verbatim>\<open>cn=grp\<close> with \<^verbatim>\<open>member: dc=example\<close> under
  the leaf \<^verbatim>\<open>dc=example\<close> (revision 6) leaves the parent at revision 8, not 7.
\<close>

theorem insert_member_parent_counterexample:
  "db_get ex_db 1 = Inr row1 \<and> \<not> IsContainer row1 \<and> Version row1 = 6
   \<and> findEntryID ex_cache (env_SuffixDN ex_renv) dn_suffix = Inr 1
   \<and> map_sum id (\<lambda>(db', m). (rev_of db' 1, map_option Dependant m, map_option m_ID m))
        (insertInternal ex_renv ex_cache ex_db in_grp) = Inr (Some 8, Some [1], Some 2)"
  using ex_insert_grp ex_get_parent ex_find_suffix
  by (simp add: row1_def ex_fields)

text \<open>
  Witness for C5: inserting \<^verbatim>\<open>cn=alice\<close> under the leaf \<^verbatim>\<open>dc=example\<close>
  promotes the parent to revision 7 with path \<open>[1]\<close> and reports it as dependant.
\<close>

theorem insertInternal_promotes_parent_witness:
  "in_ParentDN in_alice = Some dn_suffix
   \<and> findEntryID ex_cache (env_SuffixDN ex_renv) dn_suffix = Inr 1
   \<and> db_get ex_db 1 = Inr row1 \<and> \<not> IsContainer row1 \<and> Version row1 = 6
   \<and> convAssocs ex_renv ex_cache (in_attrsOrig in_alice) = Inr (in_attrsOrig in_alice, [])
   \<and> (\<exists>db' m p'. insertInternal ex_renv ex_cache ex_db in_alice = Inr (db', Some m)
          \<and> Op m = NotifyAdd \<and> Dependant m = [1]
          \<and> db_get db' 1 = Inr p' \<and> IsContainer p' \<and> Path p' = [1] \<and> Version p' = 7)"
proof -
  have par: "in_ParentDN in_alice = Some dn_suffix" by (rule ex_fields)
  have pid: "findEntryID ex_cache (env_SuffixDN ex_renv) dn_suffix = Inr 1"
    using ex_find_suffix by (simp add: ex_fields)
  have r1: "\<not> IsContainer row1" "Version row1 = 6" "parent_path ex_db row1 = []"
    by (simp_all add: row1_def row0_def parent_path_def ex_db_def)
  obtain db' m where ok: "insertInternal ex_renv ex_cache ex_db in_alice = Inr (db', Some m)"
    using ex_insert_alice
    by (cases "insertInternal ex_renv ex_cache ex_db in_alice") (auto split: prod.splits)
  from insertInternal_promotes_parent[OF ok par pid ex_get_parent ex_conv_alice] r1
  obtain p' where "Op m = NotifyAdd" "db_get db' 1 = Inr p'" "Dependant m = [1]"
    "IsContainer p'" "Path p' = [1]" "Version p' = 7"
    by auto
  then show ?thesis
    using par pid ex_get_parent r1 ex_conv_alice ok by blast
qed

section \<open>Update: the optimistic check and the retry loop\<close>

text \<open>
  When no row has the given id at the given revision, the \<^verbatim>\<open>UPDATE\<close> of
  \<^verbatim>\<open>internalUpdate\<close> changes no row and the function fails with the plain error
  \<^verbatim>\<open>Unexpected update result\<close>.
\<close>

lemma internalUpdate_rev_mismatch:
  assumes "up_ops inp \<noteq> []"
    and "filter (\<lambda>e. ID e = i \<and> Version e = rv) (rows db) = []"
    and "constraints_ok (rows db)"
  shows "internalUpdate env db i rv inp = Inl (OtherError ''Unexpected update result'')"
proof -
  from assms(2) have none: "\<And>e. e \<in> set (rows db) \<Longrightarrow> \<not> (ID e = i \<and> Version e = rv)"
    by (auto simp: filter_empty_conv)
  hence same: "map (\<lambda>e. if ID e = i \<and> Version e = rv
                         then (case f e of Some e' \<Rightarrow> e' | None \<Rightarrow> e) else e) (rows db)
               = rows db" for f :: "DBEntry \<Rightarrow> DBEntry option"
    by (intro map_idI) auto
  from none have nex: "\<not> list_ex (\<lambda>e. ID e = i \<and> Version e = rv \<and> P e) (rows db)"
    for P :: "DBEntry \<Rightarrow> bool"
    by (auto simp: list_ex_iff)
  show ?thesis
    using assms(1,3)
    by (simp add: internalUpdate_def sql_update_def nex same assms(2) Let_def)
qed


text \<open>The loop does retry an operation that fails with a \<^verbatim>\<open>RetryError\<close>.\<close>

lemma handleModify_loop_retries:
  "handleModify_loop 2 (\<lambda>st. (Some (RetryError ''x''), st)) 0 0 ()
   = (Some (RetryError ''x''), 3, ())"
  by (simp add: handleModify_loop.simps isRetryError_def)


section \<open>UpdateDN: the notification message\<close>

text \<open>Every message that \<^verbatim>\<open>internalUpdateDN\<close> returns carries the operation \<^verbatim>\<open>mod\<close>.\<close>

lemma internalUpdateDN_Op:
  assumes "internalUpdateDN env cache db i rv inp = Inr (db', Some m)"
  shows "Op m = NotifyMod \<and> m_ID m = i \<and> Rev m = rv + 1"
  using assms
  by (auto simp: internalUpdateDN_def Let_def split: sum.splits option.splits prod.splits if_splits)

text \<open>
  With two sub-containers below the moved entry, the first \<^verbatim>\<open>UPDATE\<close> of step 5
  changes one row, which differs from \<^verbatim>\<open>len(oldSubTree)\<close>, and the function returns
  a nil message with a nil error: the path of \<^verbatim>\<open>ou=staff\<close> is rewritten, the entry
  itself stays where it was.
\<close>

lemma internalUpdateDN_two_subcontainers:
  "message_of (internalUpdateDN ex_renv tree_cache2 tree_db2 2 3 move_people) = Inr None
   \<and> columns_of (internalUpdateDN ex_renv tree_cache2 tree_db2 2 3 move_people)
     = Inr [(0, 1, 0, [], True, ''dc=0''), (1, 4, 0, [1], True, ''dc=example''),
            (2, 3, 1, [1, 2], True, ''ou=people''), (3, 3, 2, [2, 3], True, ''ou=staff''),
            (4, 1, 1, [], False, ''ou=groups''), (5, 1, 2, [], False, ''cn=alice''),
            (6, 1, 3, [], False, ''cn=bob''), (7, 2, 2, [1, 2, 7], True, ''ou=temps''),
            (8, 1, 7, [], False, ''cn=carl'')]"
  by code_simp

text \<open>
  C4 fails on the code. A rename of \<^verbatim>\<open>cn=alice,ou=people,dc=example\<close> to
  \<^verbatim>\<open>cn=alice2\<close> and a move of \<^verbatim>\<open>ou=people,dc=example\<close> (which has the
  sub-container \<^verbatim>\<open>ou=staff\<close>) under \<^verbatim>\<open>ou=groups,dc=example\<close> both succeed, and
  both emit a message whose operation is \<^verbatim>\<open>mod\<close>, not \<^verbatim>\<open>modrdn\<close>; the flag
  \<^verbatim>\<open>sub\<close> is false for the rename and true for the move.
\<close>

theorem internalUpdateDN_emits_mod:
  "message_of (internalUpdateDN ex_renv tree_cache tree_db 5 1 rename_alice)
     = Inr (Some \<lparr>Issuer = ''server-1'', m_ID = 5, Op = NotifyMod, Rev = 2,
                   Association = False, Dependant = [], Sub = False\<rparr>)
   \<and> message_of (internalUpdateDN ex_renv tree_cache tree_db 2 3 move_people)
     = Inr (Some \<lparr>Issuer = ''server-1'', m_ID = 2, Op = NotifyMod, Rev = 4,
                   Association = False, Dependant = [4], Sub = True\<rparr>)
   \<and> NotifyMod \<noteq> NotifyModRDN"
  by code_simp

section \<open>ParseDN and the original-form string\<close>

text \<open>
  C8 fails on the code. \<^verbatim>\<open>ParseDN\<close> accepts \<^verbatim>\<open>cn=,\<close>: the separator ends the
  empty value of \<^verbatim>\<open>cn\<close>, and the DN has one RDN whose original-form string is
  \<^verbatim>\<open>cn=\<close>. Parsing that string again gives a DN without any RDN, because the
  end of the string ends a value only when the buffer is not empty; the normalised
  string changes from \<^verbatim>\<open>cn=\<close> to the empty string.
\<close>

theorem ParseDN_empty_last_value:
  "ParseDN ex_senv ex_registry ''cn=,''
     = Inr (DN [RelativeDN [\<lparr>TypeOrig = ''cn'', TypeNorm = ''cn'', ValueOrig = [],
                             ValueOrigEncoded = [], ValueNorm = []\<rparr>]])
   \<and> map_sum id DNOrigStr (ParseDN ex_senv ex_registry ''cn=,'') = Inr ''cn=''
   \<and> map_sum id DNNormStr (ParseDN ex_senv ex_registry ''cn=,'') = Inr ''cn=''
   \<and> ParseDN ex_senv ex_registry ''cn='' = Inr (DN [])
   \<and> map_sum id DNNormStr (ParseDN ex_senv ex_registry ''cn='') = Inr []"
  by code_simp

section \<open>Normalising twice\<close>

subsection \<open>White space\<close>








lemma dropWhile_id: "xs = [] \<or> \<not> P (hd xs) \<Longrightarrow> dropWhile P xs = xs"
  by (cases xs) auto





subsection \<open>Lower case\<close>












subsection \<open>Decimal integers\<close>










subsection \<open>The rules of \<^verbatim>\<open>normalize\<close>\<close>








end
